theory Spec2Isabelle
  imports Complex_Main "HOL-Library.Char_ord" "HOL-Library.Multiset"
begin

section \<open>Strings and the regular expressions of the source\<close>

text \<open>
  JavaScript strings are modelled as \<open>string\<close>; a \<open>char\<close> stands for one code unit
  below 256. Text outside ASCII occurs only in fixed labels and messages, which are written
  as their UTF-8 bytes. Whitespace and line terminators are the ASCII ones.
\<close>

definition is_digit :: "char \<Rightarrow> bool" where
  "is_digit c = (CHR ''0'' \<le> c \<and> c \<le> CHR ''9'')"

definition is_lower :: "char \<Rightarrow> bool" where
  "is_lower c = (CHR ''a'' \<le> c \<and> c \<le> CHR ''z'')"

definition is_upper :: "char \<Rightarrow> bool" where
  "is_upper c = (CHR ''A'' \<le> c \<and> c \<le> CHR ''Z'')"

definition is_alpha :: "char \<Rightarrow> bool" where
  "is_alpha c = (is_lower c \<or> is_upper c)"

text \<open>The class \<open>\w\<close>: letters, digits and the underscore.\<close>

definition is_word :: "char \<Rightarrow> bool" where
  "is_word c = (is_alpha c \<or> is_digit c \<or> c = CHR ''_'')"

text \<open>The class \<open>[\w-]\<close> (also written \<open>[\w\d-]\<close> and \<open>[a-zA-Z0-9_-]\<close> in the source).\<close>

definition is_word_dash :: "char \<Rightarrow> bool" where
  "is_word_dash c = (is_word c \<or> c = CHR ''-'')"

text \<open>Line terminators: \<open>.\<close> matches every character but these.\<close>

definition is_lt :: "char \<Rightarrow> bool" where
  "is_lt c = (c = CHR 0x0A \<or> c = CHR 0x0D)"

definition is_dot :: "char \<Rightarrow> bool" where
  "is_dot c = (\<not> is_lt c)"

text \<open>The class \<open>\s\<close>, which is also what \<open>trim\<close> strips.\<close>

definition is_space :: "char \<Rightarrow> bool" where
  "is_space c = (c = CHR 0x09 \<or> c = CHR 0x0A \<or> c = CHR 0x0B \<or> c = CHR 0x0C \<or> c = CHR 0x0D
     \<or> c = CHR 0x20 \<or> c = CHR 0xA0)"

definition trim :: "string \<Rightarrow> string" where
  "trim s = rev (dropWhile is_space (rev (dropWhile is_space s)))"

definition lower_char :: "char \<Rightarrow> char" where
  "lower_char c = (if is_upper c then char_of (of_char c + (32::nat)) else c)"

definition toLowerCase :: "string \<Rightarrow> string" where
  "toLowerCase s = map lower_char s"

text \<open>\<open>strip_prefix p s\<close> is the rest of \<open>s\<close> after the literal \<open>p\<close>, if \<open>s\<close> starts with it.\<close>

fun strip_prefix :: "string \<Rightarrow> string \<Rightarrow> string option" where
  "strip_prefix [] s = Some s"
| "strip_prefix (p # ps) [] = None"
| "strip_prefix (p # ps) (c # cs) = (if p = c then strip_prefix ps cs else None)"

definition starts_with :: "string \<Rightarrow> string \<Rightarrow> bool" where
  "starts_with p s = (strip_prefix p s \<noteq> None)"

text \<open>\<open>String.prototype.includes\<close>.\<close>

fun str_includes :: "string \<Rightarrow> string \<Rightarrow> bool" where
  "str_includes [] p = (p = [])"
| "str_includes (c # cs) p = (starts_with p (c # cs) \<or> str_includes cs p)"

text \<open>
  The regular expressions of the source are written out as backtracking matchers in
  continuation-passing style: a matcher takes the continuation \<open>k\<close> that matches the
  rest of the pattern and the input left, and returns what \<open>k\<close> returns at the first
  successful way of matching, in the order in which a backtracking engine tries them
  (greedy quantifiers longest first, alternatives left to right).
\<close>

text \<open>A literal.\<close>

definition lit :: "string \<Rightarrow> (string \<Rightarrow> 'a option) \<Rightarrow> string \<Rightarrow> 'a option" where
  "lit p k s = (case strip_prefix p s of None \<Rightarrow> None | Some r \<Rightarrow> k r)"

text \<open>An optional literal \<open>(?:p)?\<close>, greedy: first with, then without.\<close>

definition opt_lit :: "string \<Rightarrow> (string \<Rightarrow> 'a option) \<Rightarrow> string \<Rightarrow> 'a option" where
  "opt_lit p k s = (case lit p k s of Some r \<Rightarrow> Some r | None \<Rightarrow> k s)"

text \<open>
  A greedy run \<open>[P]{lo,hi}\<close> of a character class with the characters it matched handed
  to the continuation; \<open>hi\<close> is \<open>None\<close> for no upper bound, \<open>acc\<close> holds what is matched so far.
\<close>

fun cls_run :: "(char \<Rightarrow> bool) \<Rightarrow> nat \<Rightarrow> nat option \<Rightarrow> (string \<Rightarrow> string \<Rightarrow> 'a option)
    \<Rightarrow> string \<Rightarrow> string \<Rightarrow> 'a option" where
  "cls_run P lo hi k acc [] = (if lo \<le> length acc then k acc [] else None)"
| "cls_run P lo hi k acc (c # cs) =
     (if P c \<and> (case hi of None \<Rightarrow> True | Some h \<Rightarrow> length acc < h)
      then (case cls_run P lo hi k (acc @ [c]) cs of
              Some r \<Rightarrow> Some r
            | None \<Rightarrow> if lo \<le> length acc then k acc (c # cs) else None)
      else if lo \<le> length acc then k acc (c # cs) else None)"

text \<open>\<open>.*\<close> (greedy), \<open>[P]+\<close> and \<open>[P]{n}\<close> with a capture, \<open>[P]{lo,hi}\<close> with a capture.\<close>

definition dot_star :: "(string \<Rightarrow> 'a option) \<Rightarrow> string \<Rightarrow> 'a option" where
  "dot_star k s = cls_run is_dot 0 None (\<lambda>_. k) [] s"

definition cls_plus :: "(char \<Rightarrow> bool) \<Rightarrow> (string \<Rightarrow> string \<Rightarrow> 'a option) \<Rightarrow> string \<Rightarrow> 'a option" where
  "cls_plus P k s = cls_run P 1 None k [] s"

definition cls_range :: "(char \<Rightarrow> bool) \<Rightarrow> nat \<Rightarrow> nat \<Rightarrow> (string \<Rightarrow> string \<Rightarrow> 'a option)
    \<Rightarrow> string \<Rightarrow> 'a option" where
  "cls_range P lo hi k s = cls_run P lo (Some hi) k [] s"

text \<open>One character of a class.\<close>

fun cls_one :: "(char \<Rightarrow> bool) \<Rightarrow> (string \<Rightarrow> 'a option) \<Rightarrow> string \<Rightarrow> 'a option" where
  "cls_one P k [] = None"
| "cls_one P k (c # cs) = (if P c then k cs else None)"

text \<open>The end of the input, \<open>$\<close> (no multiline flag is used anywhere).\<close>

definition at_end :: "'a \<Rightarrow> string \<Rightarrow> 'a option" where
  "at_end v s = (if s = [] then Some v else None)"

text \<open>
  An unanchored pattern is tried at every start position, leftmost first
  (\<open>String.prototype.match\<close> without the global flag).
\<close>

fun search :: "(string \<Rightarrow> 'a option) \<Rightarrow> string \<Rightarrow> 'a option" where
  "search k [] = k []"
| "search k (c # cs) = (case k (c # cs) of Some r \<Rightarrow> Some r | None \<Rightarrow> search k cs)"

section \<open>Quality classifier (videoParser: mapVideoQuality, mapAudioQuality)\<close>

record quality_info =
  quality :: string
  standard :: string
  label :: string

text \<open>
  \<open>formatNote || d\<close>: the note when it is a non-empty string, else the default.
\<close>

definition or_default :: "string option \<Rightarrow> string \<Rightarrow> string" where
  "or_default n d = (case n of None \<Rightarrow> d | Some s \<Rightarrow> if s = [] then d else s)"

text \<open>
  The two labels with Chinese text, as UTF-8 bytes: \<open>480p\<close> followed by U+6807 U+6E05,
  and \<open>360p\<close> followed by U+6D41 U+7545.
\<close>

definition label_480 :: string where
  "label_480 = ''480p '' @ [CHR 0xE6, CHR 0xA0, CHR 0x87, CHR 0xE6, CHR 0xB8, CHR 0x85]"

definition label_360 :: string where
  "label_360 = ''360p '' @ [CHR 0xE6, CHR 0xB5, CHR 0x81, CHR 0xE7, CHR 0x95, CHR 0x85]"

text \<open>
  \<open>height\<close> is a number or absent (\<open>undefined >= n\<close> is false for every threshold);
  \<open>formatNote\<close> is a string or absent. Numbers are rationals: the finite values a
  double holds, compared exactly.
\<close>

definition ge_num :: "rat option \<Rightarrow> rat \<Rightarrow> bool" where
  "ge_num x n = (case x of None \<Rightarrow> False | Some v \<Rightarrow> v \<ge> n)"

definition mapVideoQuality :: "rat option \<Rightarrow> string option \<Rightarrow> quality_info" where
  "mapVideoQuality height formatNote =
    (let note = toLowerCase (or_default formatNote '''') in
     if ge_num height 2160 then \<lparr>quality = ''2160p'', standard = ''4K'', label = ''2160p 4K''\<rparr>
     else if ge_num height 1440 then \<lparr>quality = ''1440p'', standard = ''2K'', label = ''1440p 2K''\<rparr>
     else if ge_num height 1080 then
       \<lparr>quality = ''1080p'', standard = ''Full HD'', label = ''1080p Full HD''\<rparr>
     else if ge_num height 720 then \<lparr>quality = ''720p'', standard = ''HD'', label = ''720p HD''\<rparr>
     else if ge_num height 480 then \<lparr>quality = ''480p'', standard = ''SD'', label = label_480\<rparr>
     else if ge_num height 360 then \<lparr>quality = ''360p'', standard = ''Low'', label = label_360\<rparr>
     else if ge_num height 240 then \<lparr>quality = ''240p'', standard = ''Low'', label = ''240p''\<rparr>
     else if ge_num height 144 then \<lparr>quality = ''144p'', standard = ''Low'', label = ''144p''\<rparr>
     else if str_includes note ''4k'' \<or> str_includes note ''2160'' then
       \<lparr>quality = ''2160p'', standard = ''4K'', label = or_default formatNote ''2160p 4K''\<rparr>
     else if str_includes note ''1440'' \<or> str_includes note ''2k'' then
       \<lparr>quality = ''1440p'', standard = ''2K'', label = or_default formatNote ''1440p 2K''\<rparr>
     else if str_includes note ''1080'' \<or> str_includes note ''full hd'' then
       \<lparr>quality = ''1080p'', standard = ''Full HD'',
        label = or_default formatNote ''1080p Full HD''\<rparr>
     else if str_includes note ''720'' \<or> str_includes note ''hd'' then
       \<lparr>quality = ''720p'', standard = ''HD'', label = or_default formatNote ''720p HD''\<rparr>
     else if str_includes note ''480'' then
       \<lparr>quality = ''480p'', standard = ''SD'', label = or_default formatNote label_480\<rparr>
     else if str_includes note ''360'' then
       \<lparr>quality = ''360p'', standard = ''Low'', label = or_default formatNote label_360\<rparr>
     else \<lparr>quality = ''unknown'', standard = ''Unknown'',
           label = or_default formatNote ''Unknown''\<rparr>)"

definition mapAudioQuality :: "rat option \<Rightarrow> string" where
  "mapAudioQuality abr =
    (if ge_num abr 320 then ''High (320kbps+)''
     else if ge_num abr 192 then ''Medium (192kbps+)''
     else if ge_num abr 128 then ''Standard (128kbps+)''
     else if ge_num abr 96 then ''Low (96kbps+)''
     else ''Unknown'')"

section \<open>The process and file-system boundary\<close>

text \<open>
  The services run external programs with \<open>execSync\<close> and look at the file system.
  A \<open>world\<close> holds the regular files with their content, the directories, and the
  commands spawned so far (oldest first). An external program is a function of the command
  line and the world it is started in: it either fails, which \<open>execSync\<close> turns into an
  exception carrying a message (\<open>Inl\<close>), or prints its standard output (\<open>Inr\<close>), and
  in both cases it may have written files. A timeout is one of the failures.
\<close>

record world =
  files :: "string \<rightharpoonup> string"
  dirs :: "string set"
  spawned :: "string list"

type_synonym tool = "string \<Rightarrow> world \<Rightarrow> (string + string) \<times> (string \<times> string) list"

record config =
  cookie :: string
  tmpDir :: string

fun write_all :: "(string \<times> string) list \<Rightarrow> (string \<rightharpoonup> string) \<Rightarrow> (string \<rightharpoonup> string)" where
  "write_all [] fs = fs"
| "write_all ((p, c) # ws) fs = write_all ws (fs(p \<mapsto> c))"

definition execSync :: "tool \<Rightarrow> string \<Rightarrow> world \<Rightarrow> (string + string) \<times> world" where
  "execSync t cmd w =
    (case t cmd w of (r, ws) \<Rightarrow> (r, w\<lparr>files := write_all ws (files w), spawned := spawned w @ [cmd]\<rparr>))"

definition existsSync :: "string \<Rightarrow> world \<Rightarrow> bool" where
  "existsSync p w = (files w p \<noteq> None \<or> p \<in> dirs w)"

text \<open>The single and the double quote, as one-character strings.\<close>

definition sq :: string where
  "sq = [CHR 0x27]"

definition dq :: string where
  "dq = [CHR 0x22]"

section \<open>Subtitle lister (videoParser: parseSubtitles, catchSubtitle)\<close>

text \<open>Alternation: the left alternative first.\<close>

definition alt :: "(string \<Rightarrow> 'a option) \<Rightarrow> (string \<Rightarrow> 'a option) \<Rightarrow> string \<Rightarrow> 'a option" where
  "alt k1 k2 s = (case k1 s of Some r \<Rightarrow> Some r | None \<Rightarrow> k2 s)"

text \<open>\<open>.*?\<close> (lazy): shortest first.\<close>

fun dot_star_lazy :: "(string \<Rightarrow> 'a option) \<Rightarrow> string \<Rightarrow> 'a option" where
  "dot_star_lazy k [] = k []"
| "dot_star_lazy k (c # cs) =
     (case k (c # cs) of Some r \<Rightarrow> Some r
      | None \<Rightarrow> if is_dot c then dot_star_lazy k cs else None)"

text \<open>
  The result of \<open>catchSubtitle\<close>: a language code, \<open>0\<close> for the header line, \<open>-1\<close>
  for the end of the list.
\<close>

datatype caught = Lang string | Header | EndList

text \<open>\<open>/^(danmaku|[a-z]{2}(?:-[a-zA-Z]+)?).*/\<close>, returning group 1.\<close>

definition re_lang_code :: "string \<Rightarrow> string option" where
  "re_lang_code =
     alt (lit ''danmaku'' (dot_star (\<lambda>_. Some ''danmaku'')))
         (cls_range is_lower 2 2 (\<lambda>a.
            alt (lit ''-'' (cls_plus is_alpha (\<lambda>b. dot_star (\<lambda>_. Some (a @ ''-'' @ b)))))
                (dot_star (\<lambda>_. Some a))))"

definition catchSubtitle :: "string \<Rightarrow> caught" where
  "catchSubtitle line =
     (if lit ''Language '' (dot_star (\<lambda>_. Some ())) line \<noteq> None then Header
      else case re_lang_code line of Some m \<Rightarrow> Lang m | None \<Rightarrow> EndList)"

text \<open>\<open>/.*Available automatic captions for .*?:/\<close> and \<open>/.*Available subtitles for .*?:/\<close>.\<close>

definition re_auto_captions :: "string \<Rightarrow> bool" where
  "re_auto_captions line =
     (search (dot_star (lit ''Available automatic captions for ''
        (dot_star_lazy (lit '':'' (\<lambda>_. Some ()))))) line \<noteq> None)"

definition re_official_subs :: "string \<Rightarrow> bool" where
  "re_official_subs line =
     (search (dot_star (lit ''Available subtitles for ''
        (dot_star_lazy (lit '':'' (\<lambda>_. Some ()))))) line \<noteq> None)"

text \<open>
  \<open>result.split(/(\r\n|\n)/)\<close>: the separator is a capture group, so the separators are
  elements of the result too.
\<close>

fun split_lines :: "string \<Rightarrow> string \<Rightarrow> string list" where
  "split_lines acc [] = [acc]"
| "split_lines acc (c # cs) =
     (if c = CHR 0x0D \<and> starts_with [CHR 0x0A] cs
        then acc # [CHR 0x0D, CHR 0x0A] # split_lines [] (tl cs)
      else if c = CHR 0x0A then acc # [CHR 0x0A] # split_lines [] cs
      else split_lines (acc @ [c]) cs)"

text \<open>The inner loop over the lines after the header of the official section.\<close>

fun official_list :: "string list \<Rightarrow> string list" where
  "official_list [] = []"
| "official_list (l # ls) =
     (let subLine = trim l in
      if subLine = [] \<or> subLine = [CHR 0x0A] then official_list ls
      else case catchSubtitle subLine of
             EndList \<Rightarrow> []
           | Header \<Rightarrow> official_list ls
           | Lang sub \<Rightarrow> if sub \<noteq> [] then sub # official_list ls else official_list ls)"

text \<open>The outer loop: the flag \<open>noAutoSub\<close> and the official list when the loop ends.\<close>

fun scan_lines :: "string list \<Rightarrow> bool \<Rightarrow> bool \<times> string list" where
  "scan_lines [] noAutoSub = (noAutoSub, [])"
| "scan_lines (l # ls) noAutoSub =
     (let line = trim l in
      if line = [] \<or> line = [CHR 0x0A] then scan_lines ls noAutoSub
      else if re_auto_captions line then scan_lines ls False
      else if re_official_subs line then (noAutoSub, official_list ls)
      else scan_lines ls noAutoSub)"

definition subs_of_output :: "string \<Rightarrow> string list" where
  "subs_of_output result =
     (case scan_lines (split_lines [] result) True of
        (noAutoSub, officialSub) \<Rightarrow>
          if length officialSub < 1 then (if noAutoSub then [] else [''auto''])
          else officialSub)"

definition parser_cookie_param :: "config \<Rightarrow> world \<Rightarrow> string" where
  "parser_cookie_param cfg w =
     (if existsSync (cookie cfg) w then ''--cookies '' @ dq @ cookie cfg @ dq else [])"

definition list_subs_cmd :: "config \<Rightarrow> world \<Rightarrow> string \<Rightarrow> string" where
  "list_subs_cmd cfg w url =
     ''yt-dlp --list-subs '' @ parser_cookie_param cfg w @ '' '' @ sq @ url @ sq @ '' 2> /dev/null''"

definition parseSubtitles :: "config \<Rightarrow> tool \<Rightarrow> string \<Rightarrow> world \<Rightarrow> string list \<times> world" where
  "parseSubtitles cfg t url w =
     (case execSync t (list_subs_cmd cfg w url) w of
        (Inl err, w') \<Rightarrow> ([], w')
      | (Inr result, w') \<Rightarrow> (subs_of_output result, w'))"

section \<open>Metadata extractor (videoParser: parseVideo)\<close>

subsection \<open>Platform resolution\<close>

text \<open>\<open>([a-zA-Z0-9_-]{11})\<close>: exactly eleven characters, captured.\<close>

definition id11 :: "string \<Rightarrow> string option" where
  "id11 = cls_range is_word_dash 11 11 (\<lambda>v _. Some v)"

text \<open>
  \<open>/(?:youtube\.com\/watch\?.*v=|youtu\.be\/|youtube\.com\/embed\/|youtube\.com\/v\/)([a-zA-Z0-9_-]{11})/\<close>
\<close>

definition re_youtube1 :: "string \<Rightarrow> string option" where
  "re_youtube1 =
     search (alt (lit ''youtube.com/watch?'' (dot_star (lit ''v='' id11)))
            (alt (lit ''youtu.be/'' id11)
            (alt (lit ''youtube.com/embed/'' id11)
                 (lit ''youtube.com/v/'' id11))))"

text \<open>\<open>/youtube\.com\/watch\?.*[&?]v=([a-zA-Z0-9_-]{11})/\<close>\<close>

definition re_youtube2 :: "string \<Rightarrow> string option" where
  "re_youtube2 =
     search (lit ''youtube.com/watch?''
       (dot_star (cls_one (\<lambda>c. c = CHR ''&'' \<or> c = CHR ''?'') (lit ''v='' id11))))"

text \<open>
  \<open>/^https?:\/\/(?:www\.|m\.)?bilibili\.com\/video\/([\w\d]{11,14})\/?(?:\?.*)?$/\<close>
\<close>

definition bilibiliRegex :: "string \<Rightarrow> string option" where
  "bilibiliRegex =
     lit ''http'' (opt_lit ''s'' (lit ''://''
       (let host = lit ''bilibili.com/video/''
          (cls_range is_word 11 14 (\<lambda>v.
             opt_lit ''/'' (alt (lit ''?'' (dot_star (at_end v))) (at_end v))))
        in alt (lit ''www.'' host) (alt (lit ''m.'' host) host))))"

text \<open>\<open>/[?&]p=(\d+)/\<close>\<close>

definition re_part :: "string \<Rightarrow> string option" where
  "re_part =
     search (cls_one (\<lambda>c. c = CHR ''?'' \<or> c = CHR ''&'')
       (lit ''p='' (cls_plus is_digit (\<lambda>d _. Some d))))"

text \<open>
  The head of \<open>parseVideo\<close>: the triple \<open>(website, videoID, p)\<close>, or \<open>None\<close> when the
  function throws because \<open>website\<close> or \<open>videoID\<close> is still unset.
\<close>

definition resolve :: "string \<Rightarrow> (string \<times> string \<times> string option) option" where
  "resolve url =
     (if str_includes url ''youtube.com'' \<or> str_includes url ''youtu.be'' then
        (case re_youtube1 url of
           Some v \<Rightarrow> Some (''y2b'', v, None)
         | None \<Rightarrow> (case re_youtube2 url of
                      Some v \<Rightarrow> Some (''y2b'', v, None)
                    | None \<Rightarrow> None))
      else if str_includes url ''bilibili.com'' then
        (case bilibiliRegex url of
           Some v \<Rightarrow> Some (''bilibili'', v, re_part url)
         | None \<Rightarrow> None)
      else None)"

subsection \<open>The tool's structured output\<close>

text \<open>
  One entry of \<open>videoInfo.formats\<close> and \<open>videoInfo\<close> itself, with the fields the function
  reads. A field that may be missing is an option; numbers are rationals.
  \<open>format_name\<close> is the field \<open>format\<close> of an entry.
\<close>

record format =
  format_id :: "string option"
  ext :: "string option"
  audio_ext :: "string option"
  video_ext :: "string option"
  abr :: "rat option"
  vbr :: "rat option"
  height :: "rat option"
  format_note :: "string option"
  format_name :: "string option"
  resolution :: "string option"
  filesize :: "rat option"
  filesize_approx :: "rat option"

record video_info =
  title :: "string option"
  thumbnail :: "string option"
  duration :: "rat option"
  uploader :: "string option"
  view_count :: "rat option"
  upload_date :: "string option"
  description :: "string option"
  formats :: "format list option"

text \<open>
  \<open>n.toFixed(0)\<close> is the decimal numeral of the integer nearest to \<open>n\<close>, the larger in
  magnitude on a tie; the model keeps that integer, which is also what \<open>parseFloat\<close> reads
  back from the numeral. \<open>n.toFixed(2)\<close> is kept as the number of hundredths.
\<close>

definition toFixed0 :: "rat \<Rightarrow> int" where
  "toFixed0 x = (if x < 0 then - \<lfloor>- x + 1 / 2\<rfloor> else \<lfloor>x + 1 / 2\<rfloor>)"

text \<open>\<open>x || 0\<close> and the truth value of a number that may be missing.\<close>

definition num_or0 :: "rat option \<Rightarrow> rat" where
  "num_or0 x = (case x of None \<Rightarrow> 0 | Some v \<Rightarrow> v)"

definition truthy_num :: "rat option \<Rightarrow> bool" where
  "truthy_num x = (case x of None \<Rightarrow> False | Some v \<Rightarrow> v \<noteq> 0)"

text \<open>
  The size string: its approximate marker and the megabytes in hundredths.
\<close>

record size_info =
  approx :: bool
  hundredths :: int

definition filesize_of :: "format \<Rightarrow> size_info" where
  "filesize_of f =
     \<lparr>approx = truthy_num (filesize_approx f),
      hundredths = toFixed0
        ((if truthy_num (filesize f) then num_or0 (filesize f) else num_or0 (filesize_approx f))
           / 1024 / 1024 * 100)\<rparr>"

record audio_entry =
  a_id :: "string option"
  a_format :: "string option"
  a_rate :: int
  a_info :: string
  a_size :: size_info
  a_quality :: string

record video_entry =
  v_id :: "string option"
  v_format :: "string option"
  v_scale :: "string option"
  v_frame :: "rat option"
  v_rate :: int
  v_info :: string
  v_size :: size_info
  v_quality :: string
  v_standardQuality :: string

definition mk_audio :: "format \<Rightarrow> audio_entry" where
  "mk_audio f =
     \<lparr>a_id = format_id f, a_format = ext f, a_rate = toFixed0 (num_or0 (abr f)),
      a_info = or_default (format_note f) (or_default (format_name f) []),
      a_size = filesize_of f, a_quality = mapAudioQuality (abr f)\<rparr>"

definition mk_video :: "format \<Rightarrow> video_entry" where
  "mk_video f =
     (let qualityInfo = mapVideoQuality (height f) (format_note f) in
      \<lparr>v_id = format_id f, v_format = ext f, v_scale = resolution f, v_frame = height f,
       v_rate = toFixed0 (num_or0 (vbr f)), v_info = label qualityInfo,
       v_size = filesize_of f, v_quality = quality qualityInfo,
       v_standardQuality = standard qualityInfo\<rparr>)"

text \<open>
  The body of \<open>forEach\<close>: an entry goes to \<open>audios\<close> when its \<open>audio_ext\<close> is not the
  string \<open>none\<close>, else to \<open>videos\<close> when its \<open>video_ext\<close> is not \<open>none\<close>, else nowhere.
\<close>

fun collect_formats :: "format list \<Rightarrow> audio_entry list \<times> video_entry list" where
  "collect_formats [] = ([], [])"
| "collect_formats (f # fs) =
     (case collect_formats fs of (audios, videos) \<Rightarrow>
        if audio_ext f \<noteq> Some ''none'' then (mk_audio f # audios, videos)
        else if video_ext f \<noteq> Some ''none'' then (audios, mk_video f # videos)
        else (audios, videos))"

text \<open>
  \<open>xs.sort((a, b) => parseFloat(b.rate) - parseFloat(a.rate))\<close>: \<open>Array.prototype.sort\<close>
  is stable, so this is the stable sort by descending rate. It sorts the array in place:
  the sorted arrays are also the ones returned under \<open>available\<close>.
\<close>

definition sort_by_rate_desc :: "('a \<Rightarrow> int) \<Rightarrow> 'a list \<Rightarrow> 'a list" where
  "sort_by_rate_desc rate xs = sort_key (\<lambda>x. - rate x) xs"

text \<open>\<open>xs[0] || {}\<close>: the first element, \<open>None\<close> for the empty object.\<close>

definition first_or_empty :: "'a list \<Rightarrow> 'a option" where
  "first_or_empty xs = (case xs of [] \<Rightarrow> None | x # _ \<Rightarrow> Some x)"

subsection \<open>parseVideo\<close>

text \<open>
  The two exceptions \<open>parseVideo\<close> throws: the one for a URL of no supported platform
  (a fixed message), and the one of the outer \<open>catch\<close>, which wraps the message of
  whatever was thrown inside the \<open>try\<close> block.
\<close>

datatype parse_error = InvalidUrl | ParseFailed string

record best_formats =
  best_audio :: "audio_entry option"
  best_video :: "video_entry option"

record available_formats =
  audios :: "audio_entry list"
  videos :: "video_entry list"
  subs :: "string list"

record parse_result =
  r_website :: string
  r_v :: string
  r_p :: "string option"
  r_title :: "string option"
  r_thumbnail :: "string option"
  r_duration :: "rat option"
  r_uploader :: "string option"
  r_view_count :: "rat option"
  r_upload_date :: "string option"
  r_description :: string
  best :: best_formats
  available :: available_formats

definition print_json_cmd :: "string \<Rightarrow> string \<Rightarrow> string" where
  "print_json_cmd cookieParam url =
     ''yt-dlp --print-json --skip-download '' @ cookieParam @ '' '' @ sq @ url @ sq
       @ '' 2> /dev/null''"

text \<open>\<open>!p\<close> for a string that may be \<open>null\<close>.\<close>

definition falsy :: "string option \<Rightarrow> bool" where
  "falsy x = (case x of None \<Rightarrow> True | Some s \<Rightarrow> s = [])"

definition retry_url :: "string \<Rightarrow> string" where
  "retry_url url = (if str_includes url ''?'' then url @ ''&p=1'' else url @ ''?p=1'')"

text \<open>
  The part of the \<open>try\<close> block after the tool has printed \<open>result\<close>; \<open>url\<close> and \<open>p\<close>
  are the variables as they are at that point. \<open>JSON.parse\<close> is a parameter: it returns
  the attribute bag or the message of the exception (a syntax error, or the type error of
  reading a property of a value that is not an object).
\<close>

definition finish_parse :: "config \<Rightarrow> (string \<Rightarrow> string + video_info) \<Rightarrow> tool \<Rightarrow> string \<Rightarrow> string
    \<Rightarrow> string option \<Rightarrow> string \<Rightarrow> string \<Rightarrow> world \<Rightarrow> (parse_error + parse_result) \<times> world" where
  "finish_parse cfg json t web videoID part url result w =
     (case json result of
        Inl msg \<Rightarrow> (Inl (ParseFailed msg), w)
      | Inr videoInfo \<Rightarrow>
          (case collect_formats (case formats videoInfo of None \<Rightarrow> [] | Some fs \<Rightarrow> fs) of
             (audios0, videos0) \<Rightarrow>
               let sorted_audios = sort_by_rate_desc a_rate audios0;
                   sorted_videos = sort_by_rate_desc v_rate videos0;
                   bestAudio = first_or_empty sorted_audios;
                   bestVideo = first_or_empty sorted_videos
               in (case parseSubtitles cfg t url w of
                     (found, w') \<Rightarrow>
                       (Inr \<lparr>r_website = web, r_v = videoID, r_p = part,
                             r_title = title videoInfo, r_thumbnail = thumbnail videoInfo,
                             r_duration = duration videoInfo, r_uploader = uploader videoInfo,
                             r_view_count = view_count videoInfo,
                             r_upload_date = upload_date videoInfo,
                             r_description =
                               or_default (map_option (take 500) (description videoInfo)) [],
                             best = \<lparr>best_audio = bestAudio, best_video = bestVideo\<rparr>,
                             available = \<lparr>audios = sorted_audios, videos = sorted_videos,
                                          subs = found\<rparr>\<rparr>, w'))))"

definition parseVideo :: "config \<Rightarrow> (string \<Rightarrow> string + video_info) \<Rightarrow> tool \<Rightarrow> string \<Rightarrow> world
    \<Rightarrow> (parse_error + parse_result) \<times> world" where
  "parseVideo cfg json t url w =
     (case resolve url of
        None \<Rightarrow> (Inl InvalidUrl, w)
      | Some (web, videoID, part) \<Rightarrow>
          let cookieParam = parser_cookie_param cfg w;
              cmd = print_json_cmd cookieParam url
          in (case execSync t cmd w of
                (Inr result, w1) \<Rightarrow> finish_parse cfg json t web videoID part url result w1
              | (Inl err, w1) \<Rightarrow>
                  if web = ''bilibili'' \<and> falsy part then
                    let retryUrl = retry_url url;
                        retryCmd = print_json_cmd cookieParam retryUrl
                    in (case execSync t retryCmd w1 of
                          (Inr result, w2) \<Rightarrow>
                            finish_parse cfg json t web videoID (Some ''1'') retryUrl result w2
                        | (Inl err2, w2) \<Rightarrow> (Inl (ParseFailed err2), w2))
                  else (Inl (ParseFailed err), w1)))"

section \<open>Downloaders (subtitleDownloader, videoDownloader)\<close>

subsection \<open>Shared helpers\<close>

text \<open>
  \<open>path.join\<close>: \<open>config.tmpDir\<close> is itself a result of \<open>join\<close> and so normalised, and the
  relative part built from an identifier, a part number and a format that passed
  validation has no empty and no dot segment; on such arguments \<open>join\<close> puts the separator
  between them.
\<close>

definition path_join :: "string \<Rightarrow> string \<Rightarrow> string" where
  "path_join a b = a @ ''/'' @ b"

text \<open>The path itself and its ancestors: every prefix that ends before a separator.\<close>

fun path_prefixes :: "string \<Rightarrow> string \<Rightarrow> string list" where
  "path_prefixes acc [] = (if acc = [] then [] else [acc])"
| "path_prefixes acc (c # cs) =
     (if c = CHR ''/'' \<and> acc \<noteq> [] then acc # path_prefixes (acc @ [c]) cs
      else path_prefixes (acc @ [c]) cs)"

text \<open>
  \<open>mkdirSync(p, { recursive: true })\<close> creates the directory and its missing ancestors;
  it throws when the path or an ancestor is a regular file. (Permission errors are not
  modelled.)
\<close>

definition mkdirSync :: "string \<Rightarrow> world \<Rightarrow> string + world" where
  "mkdirSync path w =
     (if list_ex (\<lambda>q. files w q \<noteq> None) (path_prefixes [] path)
      then Inl (''EEXIST: file already exists, mkdir '' @ sq @ path @ sq)
      else Inr (w\<lparr>dirs := dirs w \<union> set (path_prefixes [] path)\<rparr>))"

definition readFileSync :: "string \<Rightarrow> world \<Rightarrow> string + string" where
  "readFileSync path w =
     (case files w path of
        None \<Rightarrow> Inl (''ENOENT: no such file or directory, open '' @ sq @ path @ sq)
      | Some content \<Rightarrow> Inr content)"

text \<open>The truth value of a string parameter: the empty string stands for a missing one.\<close>

definition truthy :: "string \<Rightarrow> bool" where
  "truthy s = (s \<noteq> [])"

definition getWebsiteUrl :: "string \<Rightarrow> string \<Rightarrow> string \<Rightarrow> string" where
  "getWebsiteUrl web ident part =
     (if web = ''y2b'' then ''https://www.youtube.com/watch?v='' @ ident
      else if web = ''bilibili'' then
        ''https://www.bilibili.com/video/'' @ ident @ (if truthy part then ''?p='' @ part else [])
      else ''https://www.youtube.com/watch?v='' @ ident)"

definition dl_cookie_param :: "config \<Rightarrow> world \<Rightarrow> string" where
  "dl_cookie_param cfg w = (if existsSync (cookie cfg) w then ''--cookies '' @ cookie cfg else [])"

text \<open>\<open>/^[\w-]{11,14}$/\<close>, \<open>/^[\d]+$/\<close>\<close>

definition re_video_id :: "string \<Rightarrow> bool" where
  "re_video_id s = (cls_range is_word_dash 11 14 (\<lambda>_. at_end ()) s \<noteq> None)"

definition re_part_number :: "string \<Rightarrow> bool" where
  "re_part_number s = (cls_plus is_digit (\<lambda>_. at_end ()) s \<noteq> None)"

subsection \<open>downloadSubtitle\<close>

text \<open>\<open>/^\.(srt|ass|vtt|lrc|xml)$/\<close>, \<open>/^(auto|native)$/\<close>\<close>

definition re_sub_ext :: "string \<Rightarrow> bool" where
  "re_sub_ext s =
     (lit ''.'' (alt (lit ''srt'' (at_end ())) (alt (lit ''ass'' (at_end ()))
        (alt (lit ''vtt'' (at_end ())) (alt (lit ''lrc'' (at_end ())) (lit ''xml'' (at_end ()))))))
        s \<noteq> None)"

definition re_sub_type :: "string \<Rightarrow> bool" where
  "re_sub_type s = (alt (lit ''auto'' (at_end ())) (lit ''native'' (at_end ())) s \<noteq> None)"

text \<open>
  The argument object. \<open>s_website\<close> is \<open>None\<close> when the property is missing, which is
  when the default \<open>y2b\<close> applies; the other parameters are only tested for truth and
  interpolated, so the empty string stands for a missing one.
\<close>

record sub_request =
  s_website :: "string option"
  s_id :: string
  s_p :: string
  s_locale :: string
  s_ext :: string
  s_type :: string

text \<open>
  The returned object: \<open>{ success: true, title, filename, text }\<close> or
  \<open>{ success: false, error }\<close>. \<open>text\<close> is the base64 encoding of the file's content;
  the model keeps the content.
\<close>

datatype sub_response = SubOk string string string | SubFail string

text \<open>\<open>error.message || 'Failed to download subtitle'\<close>\<close>

definition sub_fail :: "string \<Rightarrow> sub_response" where
  "sub_fail msg = SubFail (if truthy msg then msg else ''Failed to download subtitle'')"

text \<open>
  The validation at the head of the \<open>try\<close> block: the message of the error thrown, if any.
\<close>

definition validate_subtitle :: "sub_request \<Rightarrow> string option" where
  "validate_subtitle r =
     (if \<not> truthy (s_id r) \<or> \<not> truthy (s_locale r) \<or> \<not> truthy (s_ext r) \<or> \<not> truthy (s_type r)
        then Some ''Missing required parameters''
      else if \<not> re_video_id (s_id r) then Some ''Invalid video ID format''
      else if \<not> re_sub_ext (s_ext r) then Some ''Invalid subtitle extension''
      else if \<not> re_sub_type (s_type r) then Some ''Invalid subtitle type''
      else if truthy (s_p r) \<and> \<not> re_part_number (s_p r) then Some ''Invalid part number''
      else None)"

definition sub_cmd :: "string \<Rightarrow> string \<Rightarrow> string \<Rightarrow> string \<Rightarrow> string \<Rightarrow> string" where
  "sub_cmd type locale fullpath url cookieParam =
     ''yt-dlp --sub-lang '' @ sq @ locale @ sq @ '' -o '' @ sq @ fullpath @ ''/%(id)s.%(ext)s'' @ sq
       @ (if type = ''native'' then '' --write-sub'' else '' --write-auto-sub'')
       @ '' --skip-download --write-info-json '' @ url @ '' '' @ cookieParam"

definition convert_cmd :: "string \<Rightarrow> string \<Rightarrow> string" where
  "convert_cmd subtitleFile convertedFile =
     ''ffmpeg -i '' @ sq @ subtitleFile @ sq @ '' '' @ sq @ convertedFile @ sq @ '' -y''"

text \<open>
  The end of the function, after any conversion: the title from the metadata sidecar
  (\<open>json_title\<close> stands for \<open>JSON.parse(...).title\<close>, \<open>None\<close> when parsing throws or the
  property is missing), then the converted file.
\<close>

definition read_converted :: "(string \<Rightarrow> string option) \<Rightarrow> sub_request \<Rightarrow> string \<Rightarrow> string
    \<Rightarrow> world \<Rightarrow> sub_response" where
  "read_converted json_title r infoFile convertedFile w =
     (let title0 = (case readFileSync infoFile w of
                      Inl _ \<Rightarrow> s_id r
                    | Inr txt \<Rightarrow> (case json_title txt of
                                    None \<Rightarrow> s_id r
                                  | Some t \<Rightarrow> if truthy t then t else s_id r))
      in case readFileSync convertedFile w of
           Inl msg \<Rightarrow> sub_fail msg
         | Inr subtitleContent \<Rightarrow>
             SubOk title0 (title0 @ ''.'' @ s_locale r @ s_ext r) subtitleContent)"

definition downloadSubtitle :: "config \<Rightarrow> (string \<Rightarrow> string option) \<Rightarrow> tool \<Rightarrow> sub_request
    \<Rightarrow> world \<Rightarrow> sub_response \<times> world" where
  "downloadSubtitle cfg json_title t r w =
     (let web = (case s_website r of None \<Rightarrow> ''y2b'' | Some x \<Rightarrow> x) in
      case validate_subtitle r of
        Some msg \<Rightarrow> (sub_fail msg, w)
      | None \<Rightarrow>
          let fullpath = path_join (tmpDir cfg)
                (s_id r @ (if truthy (s_p r) then ''/p'' @ s_p r else []))
          in (case mkdirSync fullpath w of
                Inl msg \<Rightarrow> (sub_fail msg, w)
              | Inr w1 \<Rightarrow>
                  let url = getWebsiteUrl web (s_id r) (s_p r);
                      cookieParam = dl_cookie_param cfg w1;
                      cmd = sub_cmd (s_type r) (s_locale r) fullpath url cookieParam
                  in (case execSync t cmd w1 of
                        (Inl msg, w2) \<Rightarrow> (sub_fail msg, w2)
                      | (Inr _, w2) \<Rightarrow>
                          let before = fullpath @ ''/'' @ s_id r
                                @ (if truthy (s_p r) then ''_p'' @ s_p r else []);
                              originalExt = (if s_locale r = ''danmaku'' then ''xml''
                                             else if web = ''y2b'' then ''vtt'' else ''srt'');
                              subtitleFile = before @ ''.'' @ s_locale r @ ''.'' @ originalExt;
                              convertedFile = before @ ''.'' @ s_locale r @ s_ext r;
                              infoFile = before @ ''.info.json''
                          in if subtitleFile \<noteq> convertedFile then
                               (case execSync t (convert_cmd subtitleFile convertedFile) w2 of
                                  (Inl _, w3) \<Rightarrow>
                                    (case readFileSync subtitleFile w3 of
                                       Inl msg \<Rightarrow> (sub_fail msg, w3)
                                     | Inr originalContent \<Rightarrow>
                                         (SubOk (s_id r)
                                            (s_id r @ ''.'' @ s_locale r @ originalExt)
                                            originalContent, w3))
                                | (Inr _, w3) \<Rightarrow>
                                    (read_converted json_title r infoFile convertedFile w3, w3))
                             else (read_converted json_title r infoFile convertedFile w2, w2))))"

subsection \<open>downloadVideo and getDownloadStatus\<close>

text \<open>\<open>/^([\w\d-]+)(?:x([\w\d-]+))?$/\<close>\<close>

definition re_format_spec :: "string \<Rightarrow> bool" where
  "re_format_spec s =
     (cls_plus is_word_dash (\<lambda>_.
        alt (lit ''x'' (cls_plus is_word_dash (\<lambda>_. at_end ()))) (at_end ())) s \<noteq> None)"

record video_request =
  d_website :: "string option"
  d_videoID :: string
  d_p :: string
  d_format :: string
  d_recode :: string
  d_subs :: string
  d_merge :: bool

text \<open>The object under \<open>result\<close>, and the two shapes of a response.\<close>

record job =
  j_v :: string
  downloading :: bool
  downloadSucceed :: bool
  dest :: string
  metadata :: string

datatype response = Success job | Failure string

definition validate_video :: "video_request \<Rightarrow> string option" where
  "validate_video r =
     (if \<not> truthy (d_videoID r) \<or> \<not> truthy (d_format r)
        then Some ''Video ID and format are required''
      else if \<not> re_video_id (d_videoID r) then Some ''Invalid video ID format''
      else if truthy (d_p r) \<and> \<not> re_part_number (d_p r) then Some ''Invalid part number format''
      else if \<not> re_format_spec (d_format r) then Some ''Invalid format specification''
      else None)"

text \<open>\<open>format.replace('x', '+')\<close>: the first occurrence only.\<close>

fun replace_first_x :: "string \<Rightarrow> string" where
  "replace_first_x [] = []"
| "replace_first_x (c # cs) = (if c = CHR ''x'' then CHR ''+'' # cs else c # replace_first_x cs)"

text \<open>\<open>s.split('\n')\<close>\<close>

fun split_nl :: "string \<Rightarrow> string \<Rightarrow> string list" where
  "split_nl acc [] = [acc]"
| "split_nl acc (c # cs) =
     (if c = CHR 0x0A then acc # split_nl [] cs else split_nl (acc @ [c]) cs)"

text \<open>
  The pattern built from the output directory and the identifier,
  \<open>^.*DIR/(ID\.[\w]+).*$\<close> with \<open>DIR\<close> escaped, returning group 1.
\<close>

definition re_dest :: "string \<Rightarrow> string \<Rightarrow> string \<Rightarrow> string option" where
  "re_dest fullpath videoID =
     dot_star (lit (fullpath @ ''/'') (lit (videoID @ ''.'')
       (cls_plus is_word (\<lambda>e. dot_star (at_end (videoID @ ''.'' @ e))))))"

fun find_dest :: "string \<Rightarrow> string \<Rightarrow> string list \<Rightarrow> string" where
  "find_dest fullpath videoID [] = ''Unknown dest''"
| "find_dest fullpath videoID (line # ls) =
     (case re_dest fullpath videoID line of
        Some m \<Rightarrow> m
      | None \<Rightarrow> find_dest fullpath videoID ls)"

text \<open>\<open>/^.*(ERROR.*)$/\<close>, returning group 1.\<close>

definition re_error_line :: "string \<Rightarrow> string option" where
  "re_error_line = dot_star (\<lambda>s. lit ''ERROR'' (dot_star (at_end s)) s)"

fun find_cause :: "string list \<Rightarrow> string" where
  "find_cause [] = ''Unknown cause''"
| "find_cause (line # ls) =
     (case re_error_line line of Some m \<Rightarrow> m | None \<Rightarrow> find_cause ls)"

text \<open>
  The \<open>catch\<close> block: \<open>error.toString()\<close> of an \<open>Error\<close> is its message after
  \<open>Error: \<close>. The destination marker is the UTF-8 text U+4E0B U+8F7D U+5931 U+8D25.
\<close>

definition dest_failed :: string where
  "dest_failed = [CHR 0xE4, CHR 0xB8, CHR 0x8B, CHR 0xE8, CHR 0xBD, CHR 0xBD,
                  CHR 0xE5, CHR 0xA4, CHR 0xB1, CHR 0xE8, CHR 0xB4, CHR 0xA5]"

definition download_failed :: "video_request \<Rightarrow> string \<Rightarrow> response" where
  "download_failed r msg =
     Success \<lparr>j_v = d_videoID r, downloading = False, downloadSucceed = False,
              dest = dest_failed, metadata = find_cause (split_nl [] (''Error: '' @ msg))\<rparr>"

definition video_cmd :: "string \<Rightarrow> string \<Rightarrow> string \<Rightarrow> string \<Rightarrow> string \<Rightarrow> bool \<Rightarrow> string" where
  "video_cmd cookieParam url formatParam outputTemplate recodeParam mergeOutput =
     ''yt-dlp '' @ cookieParam @ '' '' @ url @ '' -f '' @ formatParam @ '' -o '' @ sq
       @ outputTemplate @ sq @ '' '' @ recodeParam @ '' -k --write-info-json''
       @ (if mergeOutput then '' --merge-output-format mp4'' else [])"

definition job_path :: "string \<Rightarrow> string \<Rightarrow> string \<Rightarrow> string" where
  "job_path videoID part fmt =
     videoID @ (if truthy part then ''/p'' @ part else []) @ ''/'' @ fmt"

definition downloadVideo :: "config \<Rightarrow> tool \<Rightarrow> video_request \<Rightarrow> world \<Rightarrow> response \<times> world" where
  "downloadVideo cfg t r w =
     (let web = (case d_website r of None \<Rightarrow> ''y2b'' | Some x \<Rightarrow> x) in
      case validate_video r of
        Some msg \<Rightarrow> (download_failed r msg, w)
      | None \<Rightarrow>
          let path = job_path (d_videoID r) (d_p r) (d_format r);
              fullpath = path_join (tmpDir cfg) path
          in (case mkdirSync fullpath w of
                Inl msg \<Rightarrow> (download_failed r msg, w)
              | Inr w1 \<Rightarrow>
                  let url = getWebsiteUrl web (d_videoID r) (d_p r);
                      cookieParam = dl_cookie_param cfg w1;
                      recodeParam = (if truthy (d_recode r) then ''--recode '' @ d_recode r else []);
                      has_x = str_includes (d_format r) ''x'';
                      formatParam = (if has_x then replace_first_x (d_format r) else d_format r);
                      outputTemplate = (if d_merge r \<and> has_x
                                        then fullpath @ ''/'' @ d_videoID r @ ''_merged.%(ext)s''
                                        else fullpath @ ''/'' @ d_videoID r @ ''.%(ext)s'');
                      mergeOutput = (d_merge r \<and> has_x);
                      cmd = video_cmd cookieParam url formatParam outputTemplate recodeParam
                              mergeOutput
                  in (case execSync t cmd w1 of
                        (Inl msg, w2) \<Rightarrow> (download_failed r msg, w2)
                      | (Inr output, w2) \<Rightarrow>
                          (Success \<lparr>j_v = d_videoID r, downloading = False,
                                    downloadSucceed = True,
                                    dest = ''files/'' @ path @ ''/''
                                      @ find_dest fullpath (d_videoID r) (split_nl [] output),
                                    metadata = ''info/'' @ path @ ''/'' @ d_videoID r
                                      @ ''.info.json''\<rparr>, w2))))"


section \<open>Retention manager (cleanup: cleanupFiles)\<close>

text \<open>
  The retention manager looks at the direct children of the temporary directory only:
  it lists their names, reads the modification time, kind and size of each, and removes a
  child with everything below it. Its state is therefore the list of the direct children
  (\<open>None\<close> when the directory does not exist) together with the callback that
  \<open>cleanAllFiles\<close> leaves pending: the directory is created again in a promise callback,
  which runs after the synchronous \<open>cleanupFiles\<close> has returned.
\<close>

record entry =
  mtime :: int
  isDirectory :: bool
  e_size :: nat

record store =
  tmp_root :: "(string \<times> entry) list option"
  pending_mkdir :: bool

text \<open>
  What the cycle reads from outside: the outcome of \<open>df -h .\<close> (\<open>Inl\<close> when the command
  fails), the clock, and which file-system calls throw: \<open>statSync\<close> and \<open>rmSync\<close> on a
  child, by its name, and \<open>rmSync\<close> on the temporary directory itself. The recursive
  removal of the directory deletes the children one after the other, in the order of the
  listing, and the directory last; when it throws, the children it had deleted before are
  gone, and \<open>removed_before_failure\<close> is their number.
\<close>

record renv =
  df :: "string + string"
  now :: int
  stat_fails :: "string \<Rightarrow> bool"
  rm_fails :: "string \<Rightarrow> bool"
  rm_root_fails :: bool
  removed_before_failure :: nat

definition maxAge :: int where
  "maxAge = 24 * 60 * 60 * 1000"

definition maxDiskUsage :: nat where
  "maxDiskUsage = 90"

text \<open>\<open>/.*\s(\d+)%/\<close>, returning group 1, and \<open>parseInt\<close> of a string of digits.\<close>

definition re_usage :: "string \<Rightarrow> string option" where
  "re_usage =
     search (dot_star (cls_one is_space (cls_plus is_digit (\<lambda>d. lit ''%'' (\<lambda>_. Some d)))))"

definition parseInt :: "string \<Rightarrow> nat" where
  "parseInt ds = foldl (\<lambda>n c. 10 * n + (of_char c - 48)) 0 ds"

text \<open>
  \<open>cleanAllFiles\<close>: nothing when the directory does not exist. When \<open>rmSync\<close> throws, the
  exception is caught with the directory still there, without the children deleted before
  the failure, and no re-creation is scheduled; otherwise the directory is gone and its
  re-creation is pending.
\<close>

definition cleanAllFiles :: "renv \<Rightarrow> store \<Rightarrow> store" where
  "cleanAllFiles env s =
     (case tmp_root s of
        None \<Rightarrow> s
      | Some es \<Rightarrow>
          if rm_root_fails env then s\<lparr>tmp_root := Some (drop (removed_before_failure env) es)\<rparr>
          else s\<lparr>tmp_root := None, pending_mkdir := True\<rparr>)"

text \<open>The loop of \<open>checkDiskSpace\<close> over the lines of the output.\<close>

fun check_lines :: "renv \<Rightarrow> string list \<Rightarrow> store \<Rightarrow> store" where
  "check_lines env [] s = s"
| "check_lines env (line # ls) s =
     (case re_usage line of
        Some m \<Rightarrow> if parseInt m > maxDiskUsage then cleanAllFiles env s else check_lines env ls s
      | None \<Rightarrow> check_lines env ls s)"

definition checkDiskSpace :: "renv \<Rightarrow> store \<Rightarrow> store" where
  "checkDiskSpace env s =
     (case df env of Inl _ \<Rightarrow> s | Inr out \<Rightarrow> check_lines env (split_nl [] out) s)"

definition remove_child :: "string \<Rightarrow> (string \<times> entry) list \<Rightarrow> (string \<times> entry) list" where
  "remove_child item es = filter (\<lambda>e. fst e \<noteq> item) es"

text \<open>
  The loop of \<open>cleanOldFiles\<close> over the names \<open>readdirSync\<close> returned, with the children
  left, \<open>cleanedCount\<close> and \<open>totalSize\<close>. An exception of \<open>statSync\<close> or \<open>rmSync\<close> is
  caught inside the loop body.
\<close>

fun sweep :: "renv \<Rightarrow> string list \<Rightarrow> (string \<times> entry) list \<Rightarrow> nat \<Rightarrow> nat
    \<Rightarrow> (string \<times> entry) list \<times> nat \<times> nat" where
  "sweep env [] es cleanedCount totalSize = (es, cleanedCount, totalSize)"
| "sweep env (item # items) es cleanedCount totalSize =
     (if stat_fails env item then sweep env items es cleanedCount totalSize
      else case map_of es item of
        None \<Rightarrow> sweep env items es cleanedCount totalSize
      | Some stats \<Rightarrow>
          let age = now env - mtime stats in
          if age > maxAge then
            (if isDirectory stats then
               (if rm_fails env item then sweep env items es cleanedCount totalSize
                else sweep env items (remove_child item es) (cleanedCount + 1) totalSize)
             else
               (if rm_fails env item then sweep env items es cleanedCount (totalSize + e_size stats)
                else sweep env items (remove_child item es) (cleanedCount + 1)
                       (totalSize + e_size stats)))
          else sweep env items es cleanedCount totalSize)"

text \<open>
  \<open>cleanOldFiles\<close>: the new state, and the two counters of the closing log line, \<open>None\<close>
  when the function returns at once because the directory does not exist.
\<close>

definition cleanOldFiles :: "renv \<Rightarrow> store \<Rightarrow> store \<times> (nat \<times> nat) option" where
  "cleanOldFiles env s =
     (case tmp_root s of
        None \<Rightarrow> (s, None)
      | Some es \<Rightarrow>
          (case sweep env (map fst es) es 0 0 of
             (es', cleanedCount, totalSize) \<Rightarrow> (s\<lparr>tmp_root := Some es'\<rparr>, Some (cleanedCount, totalSize))))"

definition cleanupFiles :: "renv \<Rightarrow> store \<Rightarrow> store" where
  "cleanupFiles env s = fst (cleanOldFiles env (checkDiskSpace env s))"

text \<open>The pending callback, run once the synchronous code has returned.\<close>

definition run_pending :: "store \<Rightarrow> store" where
  "run_pending s =
     (if pending_mkdir s
      then s\<lparr>tmp_root := (case tmp_root s of None \<Rightarrow> Some [] | Some es \<Rightarrow> Some es), pending_mkdir := False\<rparr>
      else s)"

section \<open>Concrete scenarios\<close>

text \<open>
  A configuration, an empty world and a few canned tools, on which the model is run at
  concrete inputs.
\<close>

definition demo_cfg :: config where
  "demo_cfg = \<lparr>cookie = ''/app/server/cookies.txt'', tmpDir = ''/app/tmp''\<rparr>"

definition empty_world :: world where
  "empty_world = \<lparr>files = Map.empty, dirs = {}, spawned = []\<rparr>"

definition nl :: string where
  "nl = [CHR 0x0A]"

text \<open>A tool that always succeeds and prints \<open>out\<close>, and one that always fails.\<close>

definition tool_prints :: "string \<Rightarrow> tool" where
  "tool_prints out cmd w = (Inr out, [])"

definition tool_fails :: tool where
  "tool_fails cmd w = (Inl ''Command failed'', [])"

text \<open>The three listings of the subtitle scanner's examples.\<close>

definition official_listing :: string where
  "official_listing =
     ''[info] Available subtitles for dQw4w9WgXcQ:'' @ nl @ ''en'' @ nl @ ''es-419'' @ nl
       @ ''danmaku'' @ nl @ nl"

definition auto_listing :: string where
  "auto_listing =
     ''[info] Available automatic captions for dQw4w9WgXcQ:'' @ nl @ ''Language Name Formats''
       @ nl @ ''af vtt'' @ nl"

definition no_listing :: string where
  "no_listing = ''dQw4w9WgXcQ has no subtitles'' @ nl"

definition demo_youtube_url :: string where
  "demo_youtube_url = ''https://www.youtube.com/watch?v=dQw4w9WgXcQ''"

text \<open>Some line of the tool's output, once trimmed, matches the pattern \<open>P\<close>.\<close>

definition has_line :: "(string \<Rightarrow> bool) \<Rightarrow> string \<Rightarrow> bool" where
  "has_line P out = list_ex (\<lambda>l. P (trim l)) (split_lines [] out)"

text \<open>
  A Bilibili address without a part parameter; a tool that fails on the first command
  spawned and prints an empty object afterwards; a stand-in for \<open>JSON.parse\<close> that
  returns an attribute bag without formats.
\<close>

definition demo_bilibili_url :: string where
  "demo_bilibili_url = ''https://www.bilibili.com/video/BV1xx411c7mD''"

definition tool_fails_first :: tool where
  "tool_fails_first cmd w =
     (if spawned w = [] then (Inl ''Command failed'', []) else (Inr ''{}'', []))"

definition demo_info :: video_info where
  "demo_info = \<lparr>title = Some ''demo'', thumbnail = None, duration = None, uploader = None,
     view_count = None, upload_date = None, description = None, formats = None\<rparr>"

definition demo_json :: "string \<Rightarrow> string + video_info" where
  "demo_json out = Inr demo_info"

text \<open>
  A tool that fails on the first command, prints an empty object on the second and fails
  from then on.
\<close>

definition tool_second_only :: tool where
  "tool_second_only cmd w =
     (if length (spawned w) = 1 then (Inr ''{}'', []) else (Inl ''Command failed'', []))"

text \<open>
  Three entries as the tool reports them: a storyboard, which has neither an audio nor a
  video extension, and two audio streams whose bitrates round to the same integer.
\<close>

definition blank_format :: format where
  "blank_format = \<lparr>format_id = None, ext = None, audio_ext = None, video_ext = None,
     abr = None, vbr = None, height = None, format_note = None, format_name = None,
     resolution = None, filesize = None, filesize_approx = None\<rparr>"

definition storyboard_format :: format where
  "storyboard_format = blank_format\<lparr>format_id := Some ''sb0'', ext := Some ''mhtml'',
     audio_ext := Some ''none'', video_ext := Some ''none''\<rparr>"

definition audio_format_a :: format where
  "audio_format_a = blank_format\<lparr>format_id := Some ''a'', ext := Some ''m4a'',
     audio_ext := Some ''m4a'', video_ext := Some ''none'', abr := Some (1282 / 10)\<rparr>"

definition audio_format_b :: format where
  "audio_format_b = blank_format\<lparr>format_id := Some ''b'', ext := Some ''webm'',
     audio_ext := Some ''webm'', video_ext := Some ''none'', abr := Some (1284 / 10)\<rparr>"

text \<open>
  A stand-in for \<open>JSON.parse\<close> that reads the entries \<open>fs\<close> from the text
  \<open>[formats]\<close> and no entries from any other text.
\<close>

definition formats_json :: "format list \<Rightarrow> string \<Rightarrow> string + video_info" where
  "formats_json fs out =
     (if out = ''[formats]'' then Inr (demo_info\<lparr>formats := Some fs\<rparr>) else Inr demo_info)"

text \<open>A stand-in for \<open>JSON.parse\<close> that throws on every input.\<close>

definition bad_json :: "string \<Rightarrow> string + video_info" where
  "bad_json out = Inl ''Unexpected end of JSON input''"

section \<open>Notions used in the statements\<close>

text \<open>
  The two conditions of the loop over the reported streams, the rates the sort compares
  (the bitrate rounded to an integer, zero when it is missing), and the first element of
  a list among those of the highest rate.
\<close>

definition is_audio :: "format \<Rightarrow> bool" where
  "is_audio f = (audio_ext f \<noteq> Some ''none'')"

definition is_video :: "format \<Rightarrow> bool" where
  "is_video f = (audio_ext f = Some ''none'' \<and> video_ext f \<noteq> Some ''none'')"

definition audio_rate :: "format \<Rightarrow> int" where
  "audio_rate f = toFixed0 (num_or0 (abr f))"

definition video_rate :: "format \<Rightarrow> int" where
  "video_rate f = toFixed0 (num_or0 (vbr f))"

definition first_highest :: "('a \<Rightarrow> int) \<Rightarrow> 'a list \<Rightarrow> 'a option" where
  "first_highest rate xs = List.find (\<lambda>x. list_all (\<lambda>y. rate y \<le> rate x) xs) xs"

section \<open>Notions of the subtitle downloader\<close>

text \<open>
  The names \<open>downloadSubtitle\<close> computes on its way: the platform after defaulting, the
  container the extraction tool writes (\<open>originalExt\<close>), the job directory, the common
  stem of the file names (\<open>before\<close>), the native and the converted file, and the
  command that fetches the subtitle.
\<close>

definition sub_web :: "sub_request \<Rightarrow> string" where
  "sub_web r = (case s_website r of None \<Rightarrow> ''y2b'' | Some x \<Rightarrow> x)"

definition native_ext :: "sub_request \<Rightarrow> string" where
  "native_ext r =
     (if s_locale r = ''danmaku'' then ''xml'' else if sub_web r = ''y2b'' then ''vtt''
      else ''srt'')"

definition sub_dir :: "config \<Rightarrow> sub_request \<Rightarrow> string" where
  "sub_dir cfg r =
     path_join (tmpDir cfg) (s_id r @ (if truthy (s_p r) then ''/p'' @ s_p r else []))"

definition sub_before :: "config \<Rightarrow> sub_request \<Rightarrow> string" where
  "sub_before cfg r =
     sub_dir cfg r @ ''/'' @ s_id r @ (if truthy (s_p r) then ''_p'' @ s_p r else [])"

definition native_file :: "config \<Rightarrow> sub_request \<Rightarrow> string" where
  "native_file cfg r = sub_before cfg r @ ''.'' @ s_locale r @ ''.'' @ native_ext r"

definition converted_file :: "config \<Rightarrow> sub_request \<Rightarrow> string" where
  "converted_file cfg r = sub_before cfg r @ ''.'' @ s_locale r @ s_ext r"

definition fetch_cmd :: "config \<Rightarrow> sub_request \<Rightarrow> world \<Rightarrow> string" where
  "fetch_cmd cfg r w1 =
     sub_cmd (s_type r) (s_locale r) (sub_dir cfg r)
       (getWebsiteUrl (sub_web r) (s_id r) (s_p r)) (dl_cookie_param cfg w1)"

section \<open>Scenarios of the downloaders\<close>

text \<open>
  A request for the English native subtitles of a YouTube video as \<open>.srt\<close>; an
  extraction tool that writes the subtitle in its native container; and the same with a
  transcoding tool that fails.
\<close>

definition demo_sub_request :: sub_request where
  "demo_sub_request = \<lparr>s_website = None, s_id = ''dQw4w9WgXcQ'', s_p = [], s_locale = ''en'',
     s_ext = ''.srt'', s_type = ''native''\<rparr>"

definition tool_ffmpeg_fails :: tool where
  "tool_ffmpeg_fails cmd w =
     (if starts_with ''ffmpeg'' cmd then (Inl ''Command failed: ffmpeg'', [])
      else (Inr ''[info] Writing video subtitles'',
            [(''/app/tmp/dQw4w9WgXcQ/dQw4w9WgXcQ.en.vtt'', ''WEBVTT'')]))"

definition no_title :: "string \<Rightarrow> string option" where
  "no_title txt = None"


definition demo_video_request :: video_request where
  "demo_video_request = \<lparr>d_website = None, d_videoID = ''dQw4w9WgXcQ'', d_p = [],
     d_format = ''137'', d_recode = [], d_subs = [], d_merge = False\<rparr>"

section \<open>Notions and scenarios of the retention manager\<close>

text \<open>
  A line of the \<open>df\<close> output reports a utilization above the ceiling; the cycle is under
  disk pressure when \<open>df\<close> ran and some line of its output does. The children of the
  temporary directory are none when it does not exist. An entry is due when its age
  exceeds the maximum age and neither reading its status nor removing it fails.
\<close>

definition reports_above_ceiling :: "string \<Rightarrow> bool" where
  "reports_above_ceiling line =
     (case re_usage line of None \<Rightarrow> False | Some m \<Rightarrow> parseInt m > maxDiskUsage)"

definition disk_pressure :: "renv \<Rightarrow> bool" where
  "disk_pressure env =
     (case df env of Inl _ \<Rightarrow> False | Inr out \<Rightarrow> list_ex reports_above_ceiling (split_nl [] out))"

definition children_of :: "store \<Rightarrow> (string \<times> entry) list" where
  "children_of s = (case tmp_root s of None \<Rightarrow> [] | Some es \<Rightarrow> es)"

definition due :: "renv \<Rightarrow> string \<times> entry \<Rightarrow> bool" where
  "due env e =
     (if stat_fails env (fst e) then False
      else if rm_fails env (fst e) then False
      else now env - mtime (snd e) > maxAge)"

text \<open>
  The output of \<open>df -h .\<close> on a disk that is 95 percent full and on one that is 40
  percent full; a clock two days after time zero; a directory with an entry last modified
  at time zero and one modified a second ago.
\<close>

definition df_full :: string where
  "df_full = ''Filesystem      Size  Used Avail Use% Mounted on'' @ nl
     @ ''/dev/sda1        50G   47G  3.0G  95% /'' @ nl"

definition df_roomy :: string where
  "df_roomy = ''Filesystem      Size  Used Avail Use% Mounted on'' @ nl
     @ ''/dev/sda1        50G   20G   30G  40% /'' @ nl"

definition demo_env :: "string \<Rightarrow> renv" where
  "demo_env out = \<lparr>df = Inr out, now = 172800000, stat_fails = (\<lambda>_. False),
     rm_fails = (\<lambda>_. False), rm_root_fails = False, removed_before_failure = 0\<rparr>"

definition old_entry :: "string \<times> entry" where
  "old_entry = (''dQw4w9WgXcQ'', \<lparr>mtime = 0, isDirectory = True, e_size = 4096\<rparr>)"

definition locked_entry :: "string \<times> entry" where
  "locked_entry = (''BV1xx411c7mD'', \<lparr>mtime = 0, isDirectory = True, e_size = 4096\<rparr>)"

definition young_entry :: "string \<times> entry" where
  "young_entry = (''jNQXAC9IVRw'', \<lparr>mtime = 172799000, isDirectory = True, e_size = 4096\<rparr>)"

definition demo_store :: store where
  "demo_store = \<lparr>tmp_root = Some [old_entry, young_entry], pending_mkdir = False\<rparr>"

section \<open>Properties\<close>

subsection \<open>Quality classifier\<close>

text \<open>
  C5. The two classifiers return a value on every input: for every height (absent or
  any number) and every note (absent or any string) the quality is one of nine fixed
  labels, and for every bitrate (absent or any number) the audio label is one of five.
  On the examples: height 1080 with an empty note gives quality \<open>1080p\<close> and standard
  \<open>Full HD\<close>; height 0 with the note \<open>4K HDR\<close> gives \<open>2160p\<close>; bitrate 256 gives
  \<open>Medium (192kbps+)\<close> and bitrate 50 gives \<open>Unknown\<close>.
\<close>

theorem classifiers_total_and_examples:
  "quality (mapVideoQuality h n) \<in> set [''2160p'', ''1440p'', ''1080p'', ''720p'', ''480p'',
       ''360p'', ''240p'', ''144p'', ''unknown'']
   \<and> mapAudioQuality a \<in> set [''High (320kbps+)'', ''Medium (192kbps+)'',
       ''Standard (128kbps+)'', ''Low (96kbps+)'', ''Unknown'']
   \<and> quality (mapVideoQuality (Some 1080) (Some [])) = ''1080p''
   \<and> standard (mapVideoQuality (Some 1080) (Some [])) = ''Full HD''
   \<and> quality (mapVideoQuality (Some 0) (Some ''4K HDR'')) = ''2160p''
   \<and> mapAudioQuality (Some 256) = ''Medium (192kbps+)''
   \<and> mapAudioQuality (Some 50) = ''Unknown''"
proof -
  have total_video: "quality (mapVideoQuality h n) \<in> set [''2160p'', ''1440p'', ''1080p'',
      ''720p'', ''480p'', ''360p'', ''240p'', ''144p'', ''unknown'']"
    unfolding mapVideoQuality_def Let_def by (simp del: str_includes.simps)
  have total_audio: "mapAudioQuality a \<in> set [''High (320kbps+)'', ''Medium (192kbps+)'',
      ''Standard (128kbps+)'', ''Low (96kbps+)'', ''Unknown'']"
    unfolding mapAudioQuality_def by simp
  have ex1: "quality (mapVideoQuality (Some 1080) (Some [])) = ''1080p''"
    by (simp add: mapVideoQuality_def ge_num_def)
  have ex2: "standard (mapVideoQuality (Some 1080) (Some [])) = ''Full HD''"
    by (simp add: mapVideoQuality_def ge_num_def)
  have ex3: "quality (mapVideoQuality (Some 0) (Some ''4K HDR'')) = ''2160p''"
    by code_simp
  have ex4: "mapAudioQuality (Some 256) = ''Medium (192kbps+)''"
    by (simp add: mapAudioQuality_def ge_num_def)
  have ex5: "mapAudioQuality (Some 50) = ''Unknown''"
    by (simp add: mapAudioQuality_def ge_num_def)
  from total_video total_audio ex1 ex2 ex3 ex4 ex5 show ?thesis by blast
qed
subsection \<open>Process boundary\<close>

lemma spawned_execSync: "spawned (snd (execSync t cmd w)) = spawned w @ [cmd]"
  by (simp add: execSync_def split: prod.splits)

lemma fst_execSync: "fst (execSync t cmd w) = fst (t cmd w)"
  by (simp add: execSync_def split: prod.splits)


subsection \<open>Subtitle lister\<close>

lemma spawned_parseSubtitles:
  "spawned (snd (parseSubtitles cfg t url w)) = spawned w @ [list_subs_cmd cfg w url]"
  using spawned_execSync [of t "list_subs_cmd cfg w url" w]
  by (cases "execSync t (list_subs_cmd cfg w url) w")
     (auto simp: parseSubtitles_def split: sum.splits)

lemma fst_parseSubtitles:
  "fst (parseSubtitles cfg t url w) =
     (case fst (t (list_subs_cmd cfg w url) w) of Inl _ \<Rightarrow> [] | Inr out \<Rightarrow> subs_of_output out)"
  using fst_execSync [of t "list_subs_cmd cfg w url" w]
  by (cases "execSync t (list_subs_cmd cfg w url) w")
     (auto simp: parseSubtitles_def split: sum.splits)

text \<open>
  Without a header of the official section the outer loop runs to the end, collects
  nothing, and clears the flag exactly when a line announces automatic captions.
\<close>

lemma scan_lines_no_official:
  "\<not> list_ex (\<lambda>l. re_official_subs (trim l)) ls \<Longrightarrow>
   scan_lines ls na = (na \<and> \<not> list_ex (\<lambda>l. re_auto_captions (trim l)) ls, [])"
proof (induction ls arbitrary: na)
  case Nil
  then show ?case by simp
next
  case (Cons l ls)
  have e: "\<not> re_auto_captions []"
    by (simp add: re_auto_captions_def dot_star_def lit_def)
  have n: "\<not> re_auto_captions [CHR 0x0A]"
    by (simp add: re_auto_captions_def dot_star_def lit_def is_dot_def is_lt_def)
  from Cons.prems have 1: "\<not> re_official_subs (trim l)"
    and 2: "\<not> list_ex (\<lambda>l. re_official_subs (trim l)) ls" by simp_all
  show ?case
    using Cons.IH [OF 2] 1 e n by (auto simp: Let_def)
qed

lemma subs_of_output_no_official:
  "\<not> has_line re_official_subs out \<Longrightarrow>
   subs_of_output out = (if has_line re_auto_captions out then [''auto''] else [])"
  by (simp add: subs_of_output_def has_line_def scan_lines_no_official)

lemma subs_of_official_listing: "subs_of_output official_listing = [''en'', ''es'', ''danmaku'']"
  by code_simp

text \<open>
  C1, as stated, fails on its first example: for the listing with the lines \<open>en\<close>,
  \<open>es-419\<close>, \<open>danmaku\<close> the result is not \<open>["en", "es-419", "danmaku"]\<close>.
\<close>

theorem parseSubtitles_region_digits_counterexample:
  "fst (parseSubtitles demo_cfg (tool_prints official_listing) demo_youtube_url empty_world)
     \<noteq> [''en'', ''es-419'', ''danmaku'']"
  by code_simp

text \<open>
  C1, amended. When the listing tool prints \<open>out\<close>: for the listing with the header of
  the official section followed by the lines \<open>en\<close>, \<open>es-419\<close>, \<open>danmaku\<close> and a blank
  line, \<open>parseSubtitles\<close> returns \<open>["en", "es", "danmaku"]\<close> in that order (the pattern of
  \<open>catchSubtitle\<close> admits only letters after the hyphen, so \<open>es-419\<close> is captured as
  \<open>es\<close>); when some line announces automatic captions and no line is a header of the
  official section it returns \<open>["auto"]\<close>; when no line is either marker it returns
  \<open>[]\<close>.
\<close>

theorem parseSubtitles_listing:
  assumes "fst (t (list_subs_cmd cfg w url) w) = Inr out"
  shows "(out = official_listing \<longrightarrow>
            fst (parseSubtitles cfg t url w) = [''en'', ''es'', ''danmaku''])
       \<and> (has_line re_auto_captions out \<and> \<not> has_line re_official_subs out \<longrightarrow>
            fst (parseSubtitles cfg t url w) = [''auto''])
       \<and> (\<not> has_line re_auto_captions out \<and> \<not> has_line re_official_subs out \<longrightarrow>
            fst (parseSubtitles cfg t url w) = [])"
  using assms
  by (simp add: fst_parseSubtitles subs_of_output_no_official subs_of_official_listing)

theorem parseSubtitles_listing_witness:
  "fst (parseSubtitles demo_cfg (tool_prints official_listing) demo_youtube_url empty_world)
     = [''en'', ''es'', ''danmaku'']
   \<and> has_line re_auto_captions auto_listing \<and> \<not> has_line re_official_subs auto_listing
   \<and> fst (parseSubtitles demo_cfg (tool_prints auto_listing) demo_youtube_url empty_world)
     = [''auto'']
   \<and> \<not> has_line re_auto_captions no_listing \<and> \<not> has_line re_official_subs no_listing
   \<and> fst (parseSubtitles demo_cfg (tool_prints no_listing) demo_youtube_url empty_world) = []"
proof -
  have a: "has_line re_auto_captions auto_listing" by code_simp
  have b: "\<not> has_line re_official_subs auto_listing" by code_simp
  have c: "\<not> has_line re_auto_captions no_listing" by code_simp
  have d: "\<not> has_line re_official_subs no_listing" by code_simp
  have p: "\<And>out. fst (tool_prints out
      (list_subs_cmd demo_cfg empty_world demo_youtube_url) empty_world) = Inr out"
    by (simp add: tool_prints_def)
  show ?thesis
    using parseSubtitles_listing [where t = "tool_prints official_listing" and cfg = demo_cfg
        and w = empty_world and url = demo_youtube_url and out = official_listing]
      parseSubtitles_listing [where t = "tool_prints auto_listing" and cfg = demo_cfg
        and w = empty_world and url = demo_youtube_url and out = auto_listing]
      parseSubtitles_listing [where t = "tool_prints no_listing" and cfg = demo_cfg
        and w = empty_world and url = demo_youtube_url and out = no_listing]
      p a b c d
    by simp
qed

subsection \<open>Metadata extractor\<close>

text \<open>
  The head of a list sorted by descending rate with a stable sort is the first element, in
  the original order, whose rate is the highest.
\<close>

lemma find_filter: "List.find P xs = (case filter P xs of [] \<Rightarrow> None | x # _ \<Rightarrow> Some x)"
  by (induction xs) auto

lemma find_map_entries: "List.find P (map f xs) = map_option f (List.find (\<lambda>x. P (f x)) xs)"
  by (induction xs) auto

lemma first_of_sort_by_rate_desc:
  "first_or_empty (sort_by_rate_desc r xs) = List.find (\<lambda>x. \<forall>y\<in>set xs. r y \<le> r x) xs"
proof (cases xs)
  case Nil
  then show ?thesis by (simp add: first_or_empty_def sort_by_rate_desc_def)
next
  case (Cons x0 xs0)
  define k where "k = (\<lambda>x. - r x)"
  define ys where "ys = sort_key k xs"
  have ne: "ys \<noteq> []" using Cons by (simp add: ys_def)
  then obtain h tl where ys: "ys = h # tl" by (cases ys) auto
  have srt: "sorted (map k ys)" by (simp add: ys_def)
  have setys: "set ys = set xs" by (simp add: ys_def)
  have hmin: "\<forall>y\<in>set xs. k h \<le> k y"
    using srt setys ys by auto
  have hin: "h \<in> set xs" using setys ys by auto
  have P: "\<And>x. x \<in> set xs \<Longrightarrow> (\<forall>y\<in>set xs. r y \<le> r x) = (k x = k h)"
    using hmin hin by (fastforce simp: k_def)
  have "filter (\<lambda>x. \<forall>y\<in>set xs. r y \<le> r x) xs = filter (\<lambda>x. k x = k h) xs"
    by (rule filter_cong) (simp_all add: P)
  also have "\<dots> = filter (\<lambda>x. k x = k h) ys"
    by (simp add: ys_def sort_key_stable)
  also have "\<dots> = h # filter (\<lambda>x. k x = k h) tl"
    by (simp add: ys)
  finally have "List.find (\<lambda>x. \<forall>y\<in>set xs. r y \<le> r x) xs = Some h"
    by (simp add: find_filter)
  moreover have "first_or_empty (sort_by_rate_desc r xs) = Some h"
    using ys by (simp add: first_or_empty_def sort_by_rate_desc_def ys_def k_def)
  ultimately show ?thesis by simp
qed

lemma collect_formats_audios:
  "fst (collect_formats fs) = map mk_audio (filter (\<lambda>f. audio_ext f \<noteq> Some ''none'') fs)"
  by (induction fs) (auto split: prod.splits)

lemma collect_formats_videos:
  "snd (collect_formats fs) =
     map mk_video (filter (\<lambda>f. audio_ext f = Some ''none'' \<and> video_ext f \<noteq> Some ''none'') fs)"
  by (induction fs) (auto split: prod.splits)

lemma finish_parse_error:
  "json result = Inl msg \<Longrightarrow>
   finish_parse cfg json t web vid part url result w = (Inl (ParseFailed msg), w)"
  by (simp add: finish_parse_def)

lemma finish_parse_ok:
  assumes "json result = Inr info"
  shows "\<exists>res. finish_parse cfg json t web vid part url result w
             = (Inr res, snd (parseSubtitles cfg t url w))
     \<and> r_website res = web \<and> r_v res = vid \<and> r_p res = part
     \<and> subs (available res) = fst (parseSubtitles cfg t url w)
     \<and> audios (available res) = sort_by_rate_desc a_rate
          (fst (collect_formats (case formats info of None \<Rightarrow> [] | Some fs \<Rightarrow> fs)))
     \<and> videos (available res) = sort_by_rate_desc v_rate
          (snd (collect_formats (case formats info of None \<Rightarrow> [] | Some fs \<Rightarrow> fs)))
     \<and> best_audio (best res) = first_or_empty (audios (available res))
     \<and> best_video (best res) = first_or_empty (videos (available res))"
  using assms
  by (cases "parseSubtitles cfg t url w";
      cases "collect_formats (case formats info of None \<Rightarrow> [] | Some fs \<Rightarrow> fs)")
     (simp add: finish_parse_def Let_def)

lemma parseVideo_invalid: "resolve url = None \<Longrightarrow> parseVideo cfg json t url w = (Inl InvalidUrl, w)"
  by (simp add: parseVideo_def)

lemma parseVideo_direct:
  assumes "resolve url = Some (web, vid, part)"
    and "fst (t (print_json_cmd (parser_cookie_param cfg w) url) w) = Inr out"
  shows "parseVideo cfg json t url w = finish_parse cfg json t web vid part url out
           (snd (execSync t (print_json_cmd (parser_cookie_param cfg w) url) w))"
  using assms fst_execSync [of t "print_json_cmd (parser_cookie_param cfg w) url" w]
  by (cases "execSync t (print_json_cmd (parser_cookie_param cfg w) url) w")
     (simp add: parseVideo_def Let_def)

text \<open>What the patterns of the resolver guarantee: a part number, when found, has a digit.\<close>

lemma cls_run_min:
  "cls_run P lo hi k acc s = Some r \<Longrightarrow> \<exists>a rest. k a rest = Some r \<and> lo \<le> length a"
  by (induction P lo hi k acc s rule: cls_run.induct) (auto split: if_splits option.splits)

lemma search_some: "search k s = Some r \<Longrightarrow> \<exists>s'. k s' = Some r"
  by (induction k s rule: search.induct) (auto split: option.splits)

lemma cls_one_some: "cls_one P k s = Some r \<Longrightarrow> \<exists>s'. k s' = Some r"
  by (cases s) (auto split: if_splits)

lemma lit_some: "lit p k s = Some r \<Longrightarrow> \<exists>s'. k s' = Some r"
  by (auto simp: lit_def split: option.splits)

lemma re_part_nonempty: "re_part url = Some d \<Longrightarrow> d \<noteq> []"
  unfolding re_part_def cls_plus_def
  by (auto dest!: search_some cls_one_some lit_some cls_run_min)

lemma resolve_part_nonempty: "resolve url = Some (web, vid, Some d) \<Longrightarrow> d \<noteq> []"
  by (auto simp: resolve_def split: if_splits option.splits dest: re_part_nonempty)

lemma resolve_falsy: "resolve url = Some (web, vid, part) \<Longrightarrow> falsy part = (part = None)"
  by (cases part) (auto simp: falsy_def dest: resolve_part_nonempty)


lemma parseVideo_retry_ok:
  assumes "resolve url = Some (web, vid, part)"
    and "fst (t (print_json_cmd (parser_cookie_param cfg w) url) w) = Inl err"
    and "web = ''bilibili''" and "part = None"
    and "fst (t (print_json_cmd (parser_cookie_param cfg w) (retry_url url))
               (snd (execSync t (print_json_cmd (parser_cookie_param cfg w) url) w))) = Inr out"
  shows "parseVideo cfg json t url w =
           finish_parse cfg json t web vid (Some ''1'') (retry_url url) out
             (snd (execSync t (print_json_cmd (parser_cookie_param cfg w) (retry_url url))
                (snd (execSync t (print_json_cmd (parser_cookie_param cfg w) url) w))))"
proof -
  let ?cmd = "print_json_cmd (parser_cookie_param cfg w) url"
  let ?rcmd = "print_json_cmd (parser_cookie_param cfg w) (retry_url url)"
  obtain r1 w1 where e1: "execSync t ?cmd w = (r1, w1)" by (cases "execSync t ?cmd w")
  obtain r2 w2 where e2: "execSync t ?rcmd w1 = (r2, w2)" by (cases "execSync t ?rcmd w1")
  have r1: "r1 = Inl err" using assms(2) fst_execSync [of t ?cmd w] e1 by simp
  have r2: "r2 = Inr out" using assms(5) fst_execSync [of t ?rcmd w1] e1 e2 by simp
  show ?thesis
    using assms(1,3,4) e1 e2 r1 r2 by (simp add: parseVideo_def Let_def falsy_def)
qed

lemma parseVideo_retry_fails:
  assumes "resolve url = Some (web, vid, part)"
    and "fst (t (print_json_cmd (parser_cookie_param cfg w) url) w) = Inl err"
    and "web = ''bilibili''" and "part = None"
    and "fst (t (print_json_cmd (parser_cookie_param cfg w) (retry_url url))
               (snd (execSync t (print_json_cmd (parser_cookie_param cfg w) url) w))) = Inl err2"
  shows "parseVideo cfg json t url w =
           (Inl (ParseFailed err2),
            snd (execSync t (print_json_cmd (parser_cookie_param cfg w) (retry_url url))
                (snd (execSync t (print_json_cmd (parser_cookie_param cfg w) url) w))))"
proof -
  let ?cmd = "print_json_cmd (parser_cookie_param cfg w) url"
  let ?rcmd = "print_json_cmd (parser_cookie_param cfg w) (retry_url url)"
  obtain r1 w1 where e1: "execSync t ?cmd w = (r1, w1)" by (cases "execSync t ?cmd w")
  obtain r2 w2 where e2: "execSync t ?rcmd w1 = (r2, w2)" by (cases "execSync t ?rcmd w1")
  have r1: "r1 = Inl err" using assms(2) fst_execSync [of t ?cmd w] e1 by simp
  have r2: "r2 = Inl err2" using assms(5) fst_execSync [of t ?rcmd w1] e1 e2 by simp
  show ?thesis
    using assms(1,3,4) e1 e2 r1 r2 by (simp add: parseVideo_def Let_def falsy_def)
qed

lemma parseVideo_no_retry:
  assumes "resolve url = Some (web, vid, part)"
    and "fst (t (print_json_cmd (parser_cookie_param cfg w) url) w) = Inl err"
    and "web \<noteq> ''bilibili'' \<or> part \<noteq> None"
  shows "parseVideo cfg json t url w =
           (Inl (ParseFailed err),
            snd (execSync t (print_json_cmd (parser_cookie_param cfg w) url) w))"
proof -
  let ?cmd = "print_json_cmd (parser_cookie_param cfg w) url"
  obtain r1 w1 where e1: "execSync t ?cmd w = (r1, w1)" by (cases "execSync t ?cmd w")
  have r1: "r1 = Inl err" using assms(2) fst_execSync [of t ?cmd w] e1 by simp
  have "\<not> (web = ''bilibili'' \<and> falsy part)"
    using assms(3) resolve_falsy [OF assms(1)] by auto
  then show ?thesis
    using assms(1) e1 r1 by (auto simp add: parseVideo_def Let_def)
qed

text \<open>
  C2. Let the address resolve to a platform, an identifier and a part, and let the first
  invocation of the extraction tool fail. If the platform is Bilibili and no part was
  found, exactly one more invocation follows, on the address with \<open>p=1\<close> appended: when
  it succeeds the result carries part \<open>"1"\<close> (the only command after it lists the
  subtitles); when it fails, or its output cannot be parsed, the call fails with no third
  invocation. In every other case (another platform, or a part already present) the call
  fails after that one invocation.
\<close>

theorem parseVideo_retry_policy:
  fixes cfg :: config and t :: tool and url :: string and w :: world
  defines "cmd \<equiv> print_json_cmd (parser_cookie_param cfg w) url"
    and "retryCmd \<equiv> print_json_cmd (parser_cookie_param cfg w) (retry_url url)"
  defines "w1 \<equiv> snd (execSync t cmd w)"
  defines "w2 \<equiv> snd (execSync t retryCmd w1)"
  assumes res: "resolve url = Some (web, vid, part)"
    and fail: "fst (t cmd w) = Inl err"
  shows "(retry_url url = url @ ''?p=1'' \<or> retry_url url = url @ ''&p=1'')
       \<and> (web = ''bilibili'' \<and> part = None \<and> fst (t retryCmd w1) = Inr out
            \<and> json out = Inr info \<longrightarrow>
            (\<exists>res. fst (parseVideo cfg json t url w) = Inr res \<and> r_p res = Some ''1'')
            \<and> spawned (snd (parseVideo cfg json t url w))
                = spawned w @ [cmd, retryCmd, list_subs_cmd cfg w2 (retry_url url)])
       \<and> (web = ''bilibili'' \<and> part = None \<and> fst (t retryCmd w1) = Inr out
            \<and> json out = Inl msg \<longrightarrow>
            fst (parseVideo cfg json t url w) = Inl (ParseFailed msg)
            \<and> spawned (snd (parseVideo cfg json t url w)) = spawned w @ [cmd, retryCmd])
       \<and> (web = ''bilibili'' \<and> part = None \<and> fst (t retryCmd w1) = Inl err2 \<longrightarrow>
            fst (parseVideo cfg json t url w) = Inl (ParseFailed err2)
            \<and> spawned (snd (parseVideo cfg json t url w)) = spawned w @ [cmd, retryCmd])
       \<and> (web \<noteq> ''bilibili'' \<or> part \<noteq> None \<longrightarrow>
            fst (parseVideo cfg json t url w) = Inl (ParseFailed err)
            \<and> spawned (snd (parseVideo cfg json t url w)) = spawned w @ [cmd])"
proof (intro conjI impI)
  show "retry_url url = url @ ''?p=1'' \<or> retry_url url = url @ ''&p=1''"
    by (simp add: retry_url_def)
next
  assume a: "web = ''bilibili'' \<and> part = None \<and> fst (t retryCmd w1) = Inr out
      \<and> json out = Inr info"
  then have eq: "parseVideo cfg json t url w
      = finish_parse cfg json t web vid (Some ''1'') (retry_url url) out w2"
    using res fail parseVideo_retry_ok [where url = url and web = web and vid = vid
        and part = part and t = t and cfg = cfg and w = w and err = err and out = out
        and json = json]
    by (simp add: cmd_def retryCmd_def w1_def w2_def)
  from a obtain r where r: "finish_parse cfg json t web vid (Some ''1'') (retry_url url) out w2
        = (Inr r, snd (parseSubtitles cfg t (retry_url url) w2))" "r_p r = Some ''1''"
    using finish_parse_ok [of json out info cfg t web vid "Some ''1''" "retry_url url" w2]
    by auto
  show "\<exists>res. fst (parseVideo cfg json t url w) = Inr res \<and> r_p res = Some ''1''"
    using eq r by simp
  show "spawned (snd (parseVideo cfg json t url w))
      = spawned w @ [cmd, retryCmd, list_subs_cmd cfg w2 (retry_url url)]"
    using eq r by (simp add: spawned_parseSubtitles w2_def w1_def spawned_execSync)
next
  assume a: "web = ''bilibili'' \<and> part = None \<and> fst (t retryCmd w1) = Inr out
      \<and> json out = Inl msg"
  then have eq: "parseVideo cfg json t url w
      = finish_parse cfg json t web vid (Some ''1'') (retry_url url) out w2"
    using res fail parseVideo_retry_ok [where url = url and web = web and vid = vid
        and part = part and t = t and cfg = cfg and w = w and err = err and out = out
        and json = json]
    by (simp add: cmd_def retryCmd_def w1_def w2_def)
  show "fst (parseVideo cfg json t url w) = Inl (ParseFailed msg)"
    using eq a by (simp add: finish_parse_error)
  show "spawned (snd (parseVideo cfg json t url w)) = spawned w @ [cmd, retryCmd]"
    using eq a by (simp add: finish_parse_error w2_def w1_def spawned_execSync)
next
  assume a: "web = ''bilibili'' \<and> part = None \<and> fst (t retryCmd w1) = Inl err2"
  then have eq: "parseVideo cfg json t url w = (Inl (ParseFailed err2), w2)"
    using res fail parseVideo_retry_fails [where url = url and web = web and vid = vid
        and part = part and t = t and cfg = cfg and w = w and err = err and ?err2.0 = err2
        and json = json]
    by (simp add: cmd_def retryCmd_def w1_def w2_def)
  show "fst (parseVideo cfg json t url w) = Inl (ParseFailed err2)"
    using eq by simp
  show "spawned (snd (parseVideo cfg json t url w)) = spawned w @ [cmd, retryCmd]"
    using eq by (simp add: w2_def w1_def spawned_execSync)
next
  assume a: "web \<noteq> ''bilibili'' \<or> part \<noteq> None"
  have eq: "parseVideo cfg json t url w = (Inl (ParseFailed err), w1)"
    using res fail a parseVideo_no_retry [where url = url and web = web and vid = vid
        and part = part and t = t and cfg = cfg and w = w and err = err and json = json]
    by (simp add: cmd_def w1_def)
  show "fst (parseVideo cfg json t url w) = Inl (ParseFailed err)"
    using eq by simp
  show "spawned (snd (parseVideo cfg json t url w)) = spawned w @ [cmd]"
    using eq by (simp add: w1_def spawned_execSync)
qed


theorem parseVideo_retry_policy_witness:
  "(\<exists>res. fst (parseVideo demo_cfg demo_json tool_fails_first demo_bilibili_url empty_world)
            = Inr res \<and> r_p res = Some ''1'')
   \<and> length (spawned (snd (parseVideo demo_cfg demo_json tool_fails_first demo_bilibili_url
        empty_world))) = 3
   \<and> fst (parseVideo demo_cfg bad_json tool_fails_first demo_bilibili_url empty_world)
        = Inl (ParseFailed ''Unexpected end of JSON input'')
   \<and> fst (parseVideo demo_cfg demo_json tool_fails demo_bilibili_url empty_world)
        = Inl (ParseFailed ''Command failed'')
   \<and> length (spawned (snd (parseVideo demo_cfg demo_json tool_fails demo_bilibili_url
        empty_world))) = 2
   \<and> fst (parseVideo demo_cfg demo_json tool_fails demo_youtube_url empty_world)
        = Inl (ParseFailed ''Command failed'')
   \<and> length (spawned (snd (parseVideo demo_cfg demo_json tool_fails demo_youtube_url
        empty_world))) = 1"
proof -
  have rb: "resolve demo_bilibili_url = Some (''bilibili'', ''BV1xx411c7mD'', None)"
    by code_simp
  have ry: "resolve demo_youtube_url = Some (''y2b'', ''dQw4w9WgXcQ'', None)"
    by code_simp
  have f1: "\<And>c. fst (tool_fails_first c empty_world) = Inl ''Command failed''"
    by (simp add: tool_fails_first_def empty_world_def)
  have f2: "\<And>c w. fst (tool_fails c w) = Inl ''Command failed''"
    by (simp add: tool_fails_def)
  have s1: "\<And>c c' w. fst (tool_fails_first c' (snd (execSync tool_fails_first c w))) = Inr ''{}''"
    by (simp add: tool_fails_first_def execSync_def split: prod.splits)
  have j: "demo_json ''{}'' = Inr demo_info" by (simp add: demo_json_def)
  have b: "bad_json ''{}'' = Inl ''Unexpected end of JSON input''" by (simp add: bad_json_def)
  note A = parseVideo_retry_policy [where url = demo_bilibili_url and t = tool_fails_first
      and cfg = demo_cfg and w = empty_world and json = demo_json and out = "''{}''"
      and info = demo_info, OF rb f1]
  note B = parseVideo_retry_policy [where url = demo_bilibili_url and t = tool_fails_first
      and cfg = demo_cfg and w = empty_world and json = bad_json and out = "''{}''"
      and msg = "''Unexpected end of JSON input''", OF rb f1]
  note C = parseVideo_retry_policy [where url = demo_bilibili_url and t = tool_fails
      and cfg = demo_cfg and w = empty_world and json = demo_json
      and ?err2.0 = "''Command failed''", OF rb f2]
  note D = parseVideo_retry_policy [where url = demo_youtube_url and t = tool_fails
      and cfg = demo_cfg and w = empty_world and json = demo_json, OF ry f2]
  have e: "spawned empty_world = []" by (simp add: empty_world_def)
  show ?thesis
    using A B C D s1 j b f2 e by simp
qed

text \<open>
  C4, as stated, fails: after a parse that succeeded through the retry, the command that
  lists the subtitles of the address the caller supplied is not among the commands
  spawned; the last command spawned lists the subtitles of the address with \<open>?p=1\<close>
  appended.
\<close>

theorem parseVideo_subtitles_url_counterexample:
  "list_subs_cmd demo_cfg empty_world demo_bilibili_url
     \<notin> set (spawned (snd (parseVideo demo_cfg demo_json tool_fails_first demo_bilibili_url
          empty_world)))
   \<and> last (spawned (snd (parseVideo demo_cfg demo_json tool_fails_first demo_bilibili_url
          empty_world)))
     = list_subs_cmd demo_cfg empty_world (demo_bilibili_url @ ''?p=1'')"
  by code_simp

text \<open>
  C4, amended. When the parse succeeds through the retry, the subtitles are listed for the
  retried address, the one with \<open>p=1\<close> appended (\<open>url\<close> is reassigned before
  \<open>parseSubtitles\<close> is called); without a retry they are listed for the address
  supplied. On both paths a failure of the listing command leaves the parse successful
  with an empty subtitle list.
\<close>

theorem parseVideo_subtitles:
  fixes cfg :: config and t :: tool and url :: string and w :: world
  defines "cmd \<equiv> print_json_cmd (parser_cookie_param cfg w) url"
    and "retryCmd \<equiv> print_json_cmd (parser_cookie_param cfg w) (retry_url url)"
  defines "w1 \<equiv> snd (execSync t cmd w)"
  defines "w2 \<equiv> snd (execSync t retryCmd w1)"
  assumes res: "resolve url = Some (web, vid, part)"
    and json: "json out = Inr info"
  shows "(fst (t cmd w) = Inl err \<and> web = ''bilibili'' \<and> part = None
            \<and> fst (t retryCmd w1) = Inr out \<longrightarrow>
            spawned (snd (parseVideo cfg json t url w))
              = spawned w @ [cmd, retryCmd, list_subs_cmd cfg w2 (retry_url url)]
            \<and> (\<exists>r. fst (parseVideo cfg json t url w) = Inr r
                 \<and> (fst (t (list_subs_cmd cfg w2 (retry_url url)) w2) = Inl err2 \<longrightarrow>
                      subs (available r) = [])))
       \<and> (fst (t cmd w) = Inr out \<longrightarrow>
            spawned (snd (parseVideo cfg json t url w))
              = spawned w @ [cmd, list_subs_cmd cfg w1 url]
            \<and> (\<exists>r. fst (parseVideo cfg json t url w) = Inr r
                 \<and> (fst (t (list_subs_cmd cfg w1 url) w1) = Inl err2 \<longrightarrow>
                      subs (available r) = [])))"
proof (intro conjI impI)
  assume a: "fst (t cmd w) = Inl err \<and> web = ''bilibili'' \<and> part = None
      \<and> fst (t retryCmd w1) = Inr out"
  then have eq: "parseVideo cfg json t url w
      = finish_parse cfg json t web vid (Some ''1'') (retry_url url) out w2"
    using res parseVideo_retry_ok [where url = url and web = web and vid = vid
        and part = part and t = t and cfg = cfg and w = w and err = err and out = out
        and json = json]
    by (simp add: cmd_def retryCmd_def w1_def w2_def)
  obtain r where r: "finish_parse cfg json t web vid (Some ''1'') (retry_url url) out w2
        = (Inr r, snd (parseSubtitles cfg t (retry_url url) w2))"
      "subs (available r) = fst (parseSubtitles cfg t (retry_url url) w2)"
    using json finish_parse_ok [where json = json and result = out and info = info
        and cfg = cfg and t = t and web = web and vid = vid and part = "Some ''1''"
        and url = "retry_url url" and w = w2]
    by auto
  show "spawned (snd (parseVideo cfg json t url w))
      = spawned w @ [cmd, retryCmd, list_subs_cmd cfg w2 (retry_url url)]"
    using eq r by (simp add: spawned_parseSubtitles w2_def w1_def spawned_execSync)
  show "\<exists>r. fst (parseVideo cfg json t url w) = Inr r
      \<and> (fst (t (list_subs_cmd cfg w2 (retry_url url)) w2) = Inl err2 \<longrightarrow>
           subs (available r) = [])"
    using eq r by (auto simp: fst_parseSubtitles)
next
  assume a: "fst (t cmd w) = Inr out"
  then have eq: "parseVideo cfg json t url w = finish_parse cfg json t web vid part url out w1"
    using res parseVideo_direct [where url = url and web = web and vid = vid
        and part = part and t = t and cfg = cfg and w = w and out = out and json = json]
    by (simp add: cmd_def w1_def)
  obtain r where r: "finish_parse cfg json t web vid part url out w1
        = (Inr r, snd (parseSubtitles cfg t url w1))"
      "subs (available r) = fst (parseSubtitles cfg t url w1)"
    using json finish_parse_ok [where json = json and result = out and info = info
        and cfg = cfg and t = t and web = web and vid = vid and part = part
        and url = url and w = w1]
    by auto
  show "spawned (snd (parseVideo cfg json t url w))
      = spawned w @ [cmd, list_subs_cmd cfg w1 url]"
    using eq r by (simp add: spawned_parseSubtitles w1_def spawned_execSync)
  show "\<exists>r. fst (parseVideo cfg json t url w) = Inr r
      \<and> (fst (t (list_subs_cmd cfg w1 url) w1) = Inl err2 \<longrightarrow> subs (available r) = [])"
    using eq r by (auto simp: fst_parseSubtitles)
qed


theorem parseVideo_subtitles_witness:
  "spawned (snd (parseVideo demo_cfg demo_json tool_second_only demo_bilibili_url empty_world))
     = [print_json_cmd [] demo_bilibili_url, print_json_cmd [] (demo_bilibili_url @ ''?p=1''),
        list_subs_cmd demo_cfg empty_world (demo_bilibili_url @ ''?p=1'')]
   \<and> (\<exists>r. fst (parseVideo demo_cfg demo_json tool_second_only demo_bilibili_url empty_world)
          = Inr r \<and> subs (available r) = [])
   \<and> spawned (snd (parseVideo demo_cfg demo_json (tool_prints ''{}'') demo_youtube_url
        empty_world))
     = [print_json_cmd [] demo_youtube_url, list_subs_cmd demo_cfg empty_world demo_youtube_url]"
proof -
  have rb: "resolve demo_bilibili_url = Some (''bilibili'', ''BV1xx411c7mD'', None)"
    by code_simp
  have ry: "resolve demo_youtube_url = Some (''y2b'', ''dQw4w9WgXcQ'', None)"
    by code_simp
  have j: "demo_json ''{}'' = Inr demo_info" by (simp add: demo_json_def)
  have cp: "\<And>t c w. parser_cookie_param demo_cfg empty_world = []"
    by (simp add: parser_cookie_param_def existsSync_def empty_world_def demo_cfg_def)
  have ru: "retry_url demo_bilibili_url = demo_bilibili_url @ ''?p=1''"
    by code_simp
  have l0: "\<And>c. fst (tool_second_only c empty_world) = Inl ''Command failed''"
    by (simp add: tool_second_only_def empty_world_def)
  have l1: "\<And>c c'. fst (tool_second_only c' (snd (execSync tool_second_only c empty_world)))
      = Inr ''{}''"
    by (simp add: tool_second_only_def execSync_def empty_world_def split: prod.splits)
  have l2: "\<And>c c' c''. fst (tool_second_only c'' (snd (execSync tool_second_only c'
      (snd (execSync tool_second_only c empty_world))))) = Inl ''Command failed''"
    by (simp add: tool_second_only_def execSync_def empty_world_def split: prod.splits)
  have lc: "\<And>c c' u. list_subs_cmd demo_cfg (snd (execSync tool_second_only c'
      (snd (execSync tool_second_only c empty_world)))) u = list_subs_cmd demo_cfg empty_world u"
    by (simp add: list_subs_cmd_def parser_cookie_param_def existsSync_def execSync_def
        tool_second_only_def empty_world_def split: prod.splits)
  have lp: "\<And>c u. list_subs_cmd demo_cfg (snd (execSync (tool_prints ''{}'') c empty_world)) u
      = list_subs_cmd demo_cfg empty_world u"
    by (simp add: list_subs_cmd_def parser_cookie_param_def existsSync_def execSync_def
        tool_prints_def empty_world_def split: prod.splits)
  have p: "\<And>c w. fst (tool_prints ''{}'' c w) = Inr ''{}''"
    by (simp add: tool_prints_def)
  have e: "spawned empty_world = []" by (simp add: empty_world_def)
  note A = parseVideo_subtitles [where url = demo_bilibili_url and t = tool_second_only
      and cfg = demo_cfg and w = empty_world and json = demo_json and out = "''{}''"
      and info = demo_info and err = "''Command failed''" and ?err2.0 = "''Command failed''",
      OF rb j]
  note B = parseVideo_subtitles [where url = demo_youtube_url and t = "tool_prints ''{}''"
      and cfg = demo_cfg and w = empty_world and json = demo_json and out = "''{}''"
      and info = demo_info, OF ry j]
  show ?thesis
    using A B l0 l1 l2 lc lp p e cp ru by auto
qed

text \<open>
  C3, as stated, fails twice. An entry whose audio and video extensions are both \<open>none\<close>
  goes into neither set, not into the video set. And of two audio entries with the
  bitrates 128.2 and 128.4, in that order, the first is the best one, although the second
  has the higher reported bitrate: the rates compared are the rounded ones.
\<close>

theorem collect_formats_counterexample:
  "collect_formats [storyboard_format] = ([], [])
   \<and> map_option a_id (first_or_empty (sort_by_rate_desc a_rate
        (fst (collect_formats [audio_format_a, audio_format_b])))) = Some (Some ''a'')
   \<and> num_or0 (abr audio_format_a) < num_or0 (abr audio_format_b)"
  by code_simp

text \<open>
  A successful parse was finished from the output of the invocation that succeeded: the
  first one, or, when the first one failed, the retry.
\<close>

lemma parseVideo_shapes:
  "(\<exists>web vid part u out w'.
       (fst (t (print_json_cmd (parser_cookie_param cfg w) url) w) = Inr out
        \<or> (isl (fst (t (print_json_cmd (parser_cookie_param cfg w) url) w))
           \<and> fst (t (print_json_cmd (parser_cookie_param cfg w) (retry_url url))
                (snd (execSync t (print_json_cmd (parser_cookie_param cfg w) url) w)))
               = Inr out))
       \<and> parseVideo cfg json t url w = finish_parse cfg json t web vid part u out w')
   \<or> (\<exists>e w'. parseVideo cfg json t url w = (Inl e, w'))"
proof (cases "resolve url")
  case None
  then show ?thesis by (simp add: parseVideo_def)
next
  case (Some tr)
  obtain web vid part where tr: "tr = (web, vid, part)" by (cases tr)
  let ?cmd = "print_json_cmd (parser_cookie_param cfg w) url"
  let ?rcmd = "print_json_cmd (parser_cookie_param cfg w) (retry_url url)"
  obtain r1 w1 where e1: "execSync t ?cmd w = (r1, w1)" by (cases "execSync t ?cmd w")
  obtain r2 w2 where e2: "execSync t ?rcmd w1 = (r2, w2)" by (cases "execSync t ?rcmd w1")
  have f1: "fst (t ?cmd w) = r1" using fst_execSync [of t ?cmd w] e1 by simp
  have s1: "snd (execSync t ?cmd w) = w1" using e1 by simp
  have f2: "fst (t ?rcmd w1) = r2" using fst_execSync [of t ?rcmd w1] e2 by simp
  show ?thesis
  proof (cases r1)
    case (Inr out)
    then have "parseVideo cfg json t url w = finish_parse cfg json t web vid part url out w1"
      using Some tr e1 by (simp add: parseVideo_def Let_def)
    then show ?thesis using f1 Inr by blast
  next
    case (Inl err)
    show ?thesis
    proof (cases "web = ''bilibili'' \<and> falsy part")
      case False
      then have "parseVideo cfg json t url w = (Inl (ParseFailed err), w1)"
        using Some tr e1 Inl by (auto simp add: parseVideo_def Let_def)
      then show ?thesis by blast
    next
      case True
      show ?thesis
      proof (cases r2)
        case (Inl err2)
        then have "parseVideo cfg json t url w = (Inl (ParseFailed err2), w2)"
          using Some tr e1 e2 \<open>r1 = Inl err\<close> True by (simp add: parseVideo_def Let_def)
        then show ?thesis by blast
      next
        case (Inr out)
        then have p: "parseVideo cfg json t url w
            = finish_parse cfg json t web vid (Some ''1'') (retry_url url) out w2"
          using Some tr e1 e2 \<open>r1 = Inl err\<close> True by (simp add: parseVideo_def Let_def)
        have "isl (fst (t ?cmd w))" using f1 \<open>r1 = Inl err\<close> by simp
        moreover have "fst (t ?rcmd (snd (execSync t ?cmd w))) = Inr out"
          using f2 s1 Inr by simp
        ultimately show ?thesis using p by blast
      qed
    qed
  qed
qed

lemma parseVideo_ok_from_output:
  assumes "fst (parseVideo cfg json t url w) = Inr res"
  shows "\<exists>web vid part u out w'.
       (fst (t (print_json_cmd (parser_cookie_param cfg w) url) w) = Inr out
        \<or> (isl (fst (t (print_json_cmd (parser_cookie_param cfg w) url) w))
           \<and> fst (t (print_json_cmd (parser_cookie_param cfg w) (retry_url url))
                (snd (execSync t (print_json_cmd (parser_cookie_param cfg w) url) w)))
               = Inr out))
       \<and> fst (finish_parse cfg json t web vid part u out w') = Inr res"
proof -
  from parseVideo_shapes [of t cfg w url json]
  consider (fin) web vid part u out w' where
      "fst (t (print_json_cmd (parser_cookie_param cfg w) url) w) = Inr out
        \<or> (isl (fst (t (print_json_cmd (parser_cookie_param cfg w) url) w))
           \<and> fst (t (print_json_cmd (parser_cookie_param cfg w) (retry_url url))
                (snd (execSync t (print_json_cmd (parser_cookie_param cfg w) url) w)))
               = Inr out)"
      "parseVideo cfg json t url w = finish_parse cfg json t web vid part u out w'"
    | (err) e w' where "parseVideo cfg json t url w = (Inl e, w')"
    by blast
  then show ?thesis
  proof cases
    case fin
    then show ?thesis using assms by metis
  next
    case err
    then show ?thesis using assms by simp
  qed
qed

lemma finish_parse_formats:
  assumes "fst (finish_parse cfg json t web vid part u out w) = Inr res"
  shows "\<exists>info. json out = Inr info
     \<and> audios (available res) = sort_by_rate_desc a_rate
          (fst (collect_formats (case formats info of None \<Rightarrow> [] | Some fs \<Rightarrow> fs)))
     \<and> videos (available res) = sort_by_rate_desc v_rate
          (snd (collect_formats (case formats info of None \<Rightarrow> [] | Some fs \<Rightarrow> fs)))
     \<and> best_audio (best res) = first_or_empty (audios (available res))
     \<and> best_video (best res) = first_or_empty (videos (available res))"
proof (cases "json out")
  case (Inl m)
  then show ?thesis using assms by (simp add: finish_parse_error)
next
  case (Inr info)
  then show ?thesis
    using assms finish_parse_ok [where json = json and result = out and info = info
        and cfg = cfg and t = t and web = web and vid = vid and part = part
        and url = u and w = w]
    by auto
qed

lemma a_rate_mk_audio: "a_rate (mk_audio f) = audio_rate f"
  by (simp add: mk_audio_def audio_rate_def)

lemma v_rate_mk_video: "v_rate (mk_video f) = video_rate f"
  by (simp add: mk_video_def video_rate_def Let_def)

lemma best_of_entries:
  "first_or_empty (sort_by_rate_desc r (map f xs))
     = map_option f (first_highest (\<lambda>x. r (f x)) xs)"
  by (simp add: first_of_sort_by_rate_desc find_map_entries first_highest_def list_all_iff)

text \<open>
  C3, amended. When \<open>parseVideo\<close> succeeds, the extraction tool printed an output, at the
  first invocation or, when that one failed, at the retry, and this output parsed to an
  attribute bag. For the list of the entries which that bag reports: the audio set holds
  exactly the entries whose field \<open>audio_ext\<close> is not \<open>none\<close>, the video set exactly the
  entries whose \<open>audio_ext\<close> is \<open>none\<close> and whose \<open>video_ext\<close> is not (an entry with both
  \<open>none\<close> is in neither; no other field, such as \<open>ext\<close>, is consulted); best-audio is
  the first-seen audio entry among those whose audio bitrate, rounded to an integer, is
  the highest, and best-video likewise with the video bitrate; each is empty when its set
  is.
\<close>

theorem parseVideo_buckets_and_best:
  fixes cfg :: config and t :: tool and url :: string and w :: world
  defines "cmd \<equiv> print_json_cmd (parser_cookie_param cfg w) url"
    and "retryCmd \<equiv> print_json_cmd (parser_cookie_param cfg w) (retry_url url)"
  defines "w1 \<equiv> snd (execSync t cmd w)"
  assumes ok: "fst (parseVideo cfg json t url w) = Inr res"
  shows "\<exists>out info.
       (fst (t cmd w) = Inr out \<or> (isl (fst (t cmd w)) \<and> fst (t retryCmd w1) = Inr out))
     \<and> json out = Inr info
     \<and> (let fs = (case formats info of None \<Rightarrow> [] | Some fs \<Rightarrow> fs) in
          mset (audios (available res)) = mset (map mk_audio (filter is_audio fs))
        \<and> mset (videos (available res)) = mset (map mk_video (filter is_video fs))
        \<and> best_audio (best res) = map_option mk_audio (first_highest audio_rate (filter is_audio fs))
        \<and> best_video (best res) = map_option mk_video (first_highest video_rate (filter is_video fs)))"
proof -
  obtain web vid part u out w'
    where o: "fst (t cmd w) = Inr out \<or> (isl (fst (t cmd w)) \<and> fst (t retryCmd w1) = Inr out)"
    and f: "fst (finish_parse cfg json t web vid part u out w') = Inr res"
    using parseVideo_ok_from_output [OF ok] unfolding cmd_def retryCmd_def w1_def by blast
  obtain info where i: "json out = Inr info"
    and a: "audios (available res) = sort_by_rate_desc a_rate
          (fst (collect_formats (case formats info of None \<Rightarrow> [] | Some fs \<Rightarrow> fs)))"
    and v: "videos (available res) = sort_by_rate_desc v_rate
          (snd (collect_formats (case formats info of None \<Rightarrow> [] | Some fs \<Rightarrow> fs)))"
    and ba: "best_audio (best res) = first_or_empty (audios (available res))"
    and bv: "best_video (best res) = first_or_empty (videos (available res))"
    using finish_parse_formats [OF f] by blast
  define fs where "fs = (case formats info of None \<Rightarrow> [] | Some fs \<Rightarrow> fs)"
  have "filter is_audio fs = filter (\<lambda>f. audio_ext f \<noteq> Some ''none'') fs"
    by (rule filter_cong) (simp_all add: is_audio_def)
  then have ca: "fst (collect_formats fs) = map mk_audio (filter is_audio fs)"
    using collect_formats_audios [of fs] by simp
  have "filter is_video fs
      = filter (\<lambda>f. audio_ext f = Some ''none'' \<and> video_ext f \<noteq> Some ''none'') fs"
    by (rule filter_cong) (simp_all add: is_video_def)
  then have cv: "snd (collect_formats fs) = map mk_video (filter is_video fs)"
    using collect_formats_videos [of fs] by simp
  have 1: "mset (audios (available res)) = mset (map mk_audio (filter is_audio fs))"
    using a ca by (simp add: fs_def sort_by_rate_desc_def)
  have 2: "mset (videos (available res)) = mset (map mk_video (filter is_video fs))"
    using v cv by (simp add: fs_def sort_by_rate_desc_def)
  have 3: "best_audio (best res) = map_option mk_audio (first_highest audio_rate (filter is_audio fs))"
    using ba a ca best_of_entries [of a_rate mk_audio "filter is_audio fs"]
    by (simp add: fs_def a_rate_mk_audio)
  have 4: "best_video (best res) = map_option mk_video (first_highest video_rate (filter is_video fs))"
    using bv v cv best_of_entries [of v_rate mk_video "filter is_video fs"]
    by (simp add: fs_def v_rate_mk_video)
  show ?thesis
    using o i 1 2 3 4 unfolding fs_def Let_def by blast
qed

theorem parseVideo_buckets_and_best_witness:
  "best_audio (best (projr (fst (parseVideo demo_cfg
       (formats_json [storyboard_format, audio_format_a, audio_format_b])
       (tool_prints ''[formats]'') demo_youtube_url empty_world)))) = Some (mk_audio audio_format_a)
   \<and> videos (available (projr (fst (parseVideo demo_cfg
       (formats_json [storyboard_format, audio_format_a, audio_format_b])
       (tool_prints ''[formats]'') demo_youtube_url empty_world)))) = []"
proof -
  let ?J = "formats_json [storyboard_format, audio_format_a, audio_format_b]"
  let ?T = "tool_prints ''[formats]''"
  let ?X = "fst (parseVideo demo_cfg ?J ?T demo_youtube_url empty_world)"
  let ?cmd = "print_json_cmd (parser_cookie_param demo_cfg empty_world) demo_youtube_url"
  let ?rcmd = "print_json_cmd (parser_cookie_param demo_cfg empty_world)
      (retry_url demo_youtube_url)"
  have "\<not> isl ?X" by code_simp
  then have h: "?X = Inr (projr ?X)" by simp
  have fa: "filter is_audio [storyboard_format, audio_format_a, audio_format_b]
      = [audio_format_a, audio_format_b]" by code_simp
  have fv: "filter is_video [storyboard_format, audio_format_a, audio_format_b] = []"
    by code_simp
  have fh: "first_highest audio_rate [audio_format_a, audio_format_b] = Some audio_format_a"
    by code_simp
  obtain out info
    where o: "fst (?T ?cmd empty_world) = Inr out
        \<or> (isl (fst (?T ?cmd empty_world))
           \<and> fst (?T ?rcmd (snd (execSync ?T ?cmd empty_world))) = Inr out)"
    and i: "?J out = Inr info"
    and c: "let fs = (case formats info of None \<Rightarrow> [] | Some fs \<Rightarrow> fs) in
          mset (audios (available (projr ?X))) = mset (map mk_audio (filter is_audio fs))
        \<and> mset (videos (available (projr ?X))) = mset (map mk_video (filter is_video fs))
        \<and> best_audio (best (projr ?X))
            = map_option mk_audio (first_highest audio_rate (filter is_audio fs))
        \<and> best_video (best (projr ?X))
            = map_option mk_video (first_highest video_rate (filter is_video fs))"
    using parseVideo_buckets_and_best [OF h] by blast
  have out: "out = ''[formats]''"
    using o by (simp add: tool_prints_def)
  have fs: "(case formats info of None \<Rightarrow> [] | Some fs \<Rightarrow> fs)
      = [storyboard_format, audio_format_a, audio_format_b]"
    using i out by (auto simp: formats_json_def)
  from c have "mset (videos (available (projr ?X))) = mset (map mk_video [])"
    and "best_audio (best (projr ?X)) = map_option mk_audio (Some audio_format_a)"
    unfolding Let_def fs fa fv fh by blast+
  then show ?thesis by simp
qed

subsection \<open>Downloaders\<close>

text \<open>
  A request that fails validation is answered at once, in the world as it was: no
  directory is created and no command is spawned. The malformed identifier, format,
  extension, type and part number of the examples are all caught there.
\<close>

lemma downloadSubtitle_invalid:
  "validate_subtitle r = Some msg \<Longrightarrow> downloadSubtitle cfg jt t r w = (sub_fail msg, w)"
  by (simp add: downloadSubtitle_def)

lemma downloadVideo_invalid:
  "validate_video r = Some msg \<Longrightarrow> downloadVideo cfg t r w = (download_failed r msg, w)"
  by (simp add: downloadVideo_def)

lemma malformed_inputs_rejected:
  "validate_video (demo_video_request\<lparr>d_format := ''???''\<rparr>) = Some ''Invalid format specification''
   \<and> validate_video (demo_video_request\<lparr>d_videoID := ''short''\<rparr>) = Some ''Invalid video ID format''
   \<and> validate_subtitle (demo_sub_request\<lparr>s_id := ''short''\<rparr>) = Some ''Invalid video ID format''
   \<and> validate_subtitle (demo_sub_request\<lparr>s_ext := ''.exe''\<rparr>) = Some ''Invalid subtitle extension''
   \<and> validate_subtitle (demo_sub_request\<lparr>s_type := ''manual''\<rparr>) = Some ''Invalid subtitle type''
   \<and> validate_subtitle (demo_sub_request\<lparr>s_p := ''1a''\<rparr>) = Some ''Invalid part number''"
  by code_simp

text \<open>The locale \<open>123\<close> passes the validation of \<open>downloadSubtitle\<close>.\<close>

lemma locale_passes_validation:
  "validate_subtitle (demo_sub_request\<lparr>s_locale := ''123''\<rparr>) = None"
  by code_simp

text \<open>
  C7 at the input that breaks it: \<open>downloadSubtitle\<close> tests the locale for presence only,
  so the locale \<open>123\<close> passes validation; the job directory is created and the
  extraction tool is spawned with \<open>--sub-lang '123'\<close>.
\<close>

theorem downloadSubtitle_locale_unchecked:
  "spawned (snd (downloadSubtitle demo_cfg no_title tool_fails
        (demo_sub_request\<lparr>s_locale := ''123''\<rparr>) empty_world))
     = [sub_cmd ''native'' ''123'' ''/app/tmp/dQw4w9WgXcQ''
          ''https://www.youtube.com/watch?v=dQw4w9WgXcQ'' []]
   \<and> dirs (snd (downloadSubtitle demo_cfg no_title tool_fails
        (demo_sub_request\<lparr>s_locale := ''123''\<rparr>) empty_world))
     = {''/app'', ''/app/tmp'', ''/app/tmp/dQw4w9WgXcQ''}"
  by code_simp

text \<open>
  \<open>downloadSubtitle\<close> in terms of these names. When the extension asked for is the
  native one, no command spawned by the call is a call of the transcoding tool. When it
  is another one and the transcoding tool fails after the extraction tool succeeded, the
  call spawned exactly those two commands, and if the native file can be read it succeeds
  with that file's content under the name built from the identifier, a dot, the locale
  and the native extension with no dot between the last two.
\<close>

lemma spawned_mkdirSync: "mkdirSync p w = Inr w1 \<Longrightarrow> spawned w1 = spawned w"
  by (auto simp: mkdirSync_def split: if_splits)

lemma sub_cmd_not_ffmpeg: "\<not> starts_with ''ffmpeg'' (sub_cmd ty loc fp url cp)"
  by (simp add: sub_cmd_def starts_with_def)

lemma native_iff: "(native_file cfg r = converted_file cfg r) = (s_ext r = ''.'' @ native_ext r)"
  by (auto simp: native_file_def converted_file_def)

lemma downloadSubtitle_unfold:
  "downloadSubtitle cfg jt t r w =
     (case validate_subtitle r of
        Some msg \<Rightarrow> (sub_fail msg, w)
      | None \<Rightarrow>
          (case mkdirSync (sub_dir cfg r) w of
             Inl msg \<Rightarrow> (sub_fail msg, w)
           | Inr w1 \<Rightarrow>
               (case execSync t (fetch_cmd cfg r w1) w1 of
                  (Inl msg, w2) \<Rightarrow> (sub_fail msg, w2)
                | (Inr _, w2) \<Rightarrow>
                    if native_file cfg r \<noteq> converted_file cfg r then
                      (case execSync t (convert_cmd (native_file cfg r) (converted_file cfg r))
                              w2 of
                         (Inl _, w3) \<Rightarrow>
                           (case readFileSync (native_file cfg r) w3 of
                              Inl msg \<Rightarrow> (sub_fail msg, w3)
                            | Inr originalContent \<Rightarrow>
                                (SubOk (s_id r) (s_id r @ ''.'' @ s_locale r @ native_ext r)
                                   originalContent, w3))
                       | (Inr _, w3) \<Rightarrow>
                           (read_converted jt r (sub_before cfg r @ ''.info.json'')
                              (converted_file cfg r) w3, w3))
                    else (read_converted jt r (sub_before cfg r @ ''.info.json'')
                            (converted_file cfg r) w2, w2))))"
  unfolding downloadSubtitle_def Let_def sub_dir_def fetch_cmd_def sub_web_def native_file_def
    converted_file_def sub_before_def native_ext_def
  by (rule refl)

lemma downloadSubtitle_native_no_ffmpeg:
  assumes "s_ext r = ''.'' @ native_ext r"
  shows "list_all (\<lambda>c. \<not> starts_with ''ffmpeg'' c)
           (drop (length (spawned w)) (spawned (snd (downloadSubtitle cfg jt t r w))))"
proof (cases "validate_subtitle r")
  case (Some msg)
  then show ?thesis by (simp add: downloadSubtitle_unfold)
next
  case None
  show ?thesis
  proof (cases "mkdirSync (sub_dir cfg r) w")
    case (Inl msg)
    then show ?thesis using None by (simp add: downloadSubtitle_unfold)
  next
    case (Inr w1)
    obtain res w2 where e: "execSync t (fetch_cmd cfg r w1) w1 = (res, w2)"
      by (cases "execSync t (fetch_cmd cfg r w1) w1")
    have sp: "spawned w2 = spawned w @ [fetch_cmd cfg r w1]"
      using spawned_execSync [of t "fetch_cmd cfg r w1" w1] e spawned_mkdirSync [OF Inr]
      by simp
    have "snd (downloadSubtitle cfg jt t r w) = w2"
      using None Inr e assms native_iff [of cfg r]
      by (cases res) (simp_all add: downloadSubtitle_unfold)
    then show ?thesis using sp sub_cmd_not_ffmpeg by (simp add: fetch_cmd_def)
  qed
qed

lemma downloadSubtitle_conversion_fallback:
  assumes "validate_subtitle r = None"
    and "mkdirSync (sub_dir cfg r) w = Inr w1"
    and "execSync t (fetch_cmd cfg r w1) w1 = (Inr out, w2)"
    and "s_ext r \<noteq> ''.'' @ native_ext r"
    and "execSync t (convert_cmd (native_file cfg r) (converted_file cfg r)) w2 = (Inl msg, w3)"
    and "files w3 (native_file cfg r) = Some content"
  shows "downloadSubtitle cfg jt t r w
           = (SubOk (s_id r) (s_id r @ ''.'' @ s_locale r @ native_ext r) content, w3)"
    and "spawned w3 = spawned w @ [fetch_cmd cfg r w1,
           convert_cmd (native_file cfg r) (converted_file cfg r)]"
proof -
  show "downloadSubtitle cfg jt t r w
      = (SubOk (s_id r) (s_id r @ ''.'' @ s_locale r @ native_ext r) content, w3)"
    using assms native_iff [of cfg r]
    by (simp add: downloadSubtitle_unfold readFileSync_def)
  show "spawned w3 = spawned w @ [fetch_cmd cfg r w1,
      convert_cmd (native_file cfg r) (converted_file cfg r)]"
    using spawned_execSync [of t "fetch_cmd cfg r w1" w1]
      spawned_execSync [of t "convert_cmd (native_file cfg r) (converted_file cfg r)" w2]
      assms(3,5) spawned_mkdirSync [OF assms(2)]
    by simp
qed

text \<open>
  With the native extension requested (\<open>.vtt\<close> for YouTube) only the extraction tool
  is spawned.
\<close>

lemma downloadSubtitle_native_ext_no_conversion:
  "map (take 6) (spawned (snd (downloadSubtitle demo_cfg no_title tool_ffmpeg_fails
        (demo_sub_request\<lparr>s_ext := ''.vtt''\<rparr>) empty_world))) = [''yt-dlp'']
   \<and> fst (downloadSubtitle demo_cfg no_title tool_ffmpeg_fails
        (demo_sub_request\<lparr>s_ext := ''.vtt''\<rparr>) empty_world)
     = SubOk ''dQw4w9WgXcQ'' ''dQw4w9WgXcQ.en.vtt'' ''WEBVTT''"
  by code_simp

text \<open>
  C6 at the input that breaks it: \<open>.srt\<close> is requested for a YouTube subtitle, the
  extraction tool writes \<open>dQw4w9WgXcQ.en.vtt\<close>, and the transcoding tool is spawned and
  fails. The call succeeds with the content of the native file, but the file name it
  returns is \<open>dQw4w9WgXcQ.envtt\<close>: the fallback joins the locale and the native
  extension without the dot.
\<close>

theorem downloadSubtitle_fallback_filename:
  "fst (downloadSubtitle demo_cfg no_title tool_ffmpeg_fails demo_sub_request empty_world)
     = SubOk ''dQw4w9WgXcQ'' ''dQw4w9WgXcQ.envtt'' ''WEBVTT''
   \<and> files (snd (downloadSubtitle demo_cfg no_title tool_ffmpeg_fails demo_sub_request
        empty_world)) ''/app/tmp/dQw4w9WgXcQ/dQw4w9WgXcQ.en.vtt'' = Some ''WEBVTT''
   \<and> map (take 6) (spawned (snd (downloadSubtitle demo_cfg no_title tool_ffmpeg_fails
        demo_sub_request empty_world))) = [''yt-dlp'', ''ffmpeg'']"
  by code_simp











subsection \<open>Retention manager\<close>

text \<open>
  \<open>checkDiskSpace\<close> calls \<open>cleanAllFiles\<close> exactly when some line of the \<open>df\<close>
  output reports a utilization above the ceiling. The sweep removes, of the children it
  is given, exactly those that are due, and leaves the others as they are.
\<close>

lemma check_lines_pressure:
  "list_ex reports_above_ceiling ls \<Longrightarrow> check_lines env ls s = cleanAllFiles env s"
  by (induction ls) (auto simp: reports_above_ceiling_def split: option.splits)

lemma check_lines_no_pressure:
  "\<not> list_ex reports_above_ceiling ls \<Longrightarrow> check_lines env ls s = s"
  by (induction ls) (auto simp: reports_above_ceiling_def split: option.splits)

lemma checkDiskSpace_cases:
  "checkDiskSpace env s = (if disk_pressure env then cleanAllFiles env s else s)"
  by (auto simp: checkDiskSpace_def disk_pressure_def check_lines_pressure
      check_lines_no_pressure split: sum.splits)

lemma distinct_remove_child: "distinct (map fst es) \<Longrightarrow> distinct (map fst (remove_child i es))"
  by (simp add: remove_child_def distinct_map_filter)

lemma sweep_children:
  "distinct (map fst es) \<Longrightarrow>
   fst (sweep env items es c tot) = filter (\<lambda>e. \<not> (fst e \<in> set items \<and> due env e)) es"
proof (induction items arbitrary: es c tot)
  case Nil
  then show ?case by simp
next
  case (Cons item items)
  note d = Cons.prems
  have skip: "filter (\<lambda>e. \<not> (fst e \<in> set (item # items) \<and> due env e)) es
      = filter (\<lambda>e. \<not> (fst e \<in> set items \<and> due env e)) es"
    if "\<And>e. e \<in> set es \<Longrightarrow> fst e = item \<Longrightarrow> \<not> due env e"
    by (rule filter_cong) (use that in auto)
  show ?case
  proof (cases "stat_fails env item")
    case True
    then have "\<And>e. fst e = item \<Longrightarrow> \<not> due env e" by (simp add: due_def)
    then show ?thesis using True Cons.IH [OF d] skip by simp
  next
    case False
    show ?thesis
    proof (cases "map_of es item")
      case None
      then have "\<And>e. e \<in> set es \<Longrightarrow> fst e \<noteq> item"
        by (metis map_of_eq_None_iff image_eqI)
      then show ?thesis using False None Cons.IH [OF d] skip by simp
    next
      case (Some stats)
      have uniq: "\<And>e. e \<in> set es \<Longrightarrow> fst e = item \<Longrightarrow> e = (item, stats)"
        using Some d by (metis map_of_is_SomeI option.inject prod.collapse)
      show ?thesis
      proof (cases "now env - mtime stats > maxAge \<and> \<not> rm_fails env item")
        case False
        then have "\<not> due env (item, stats)" by (auto simp: due_def)
        then have nd: "\<And>e. e \<in> set es \<Longrightarrow> fst e = item \<Longrightarrow> \<not> due env e"
          using uniq by metis
        show ?thesis
          using \<open>\<not> stat_fails env item\<close> Some False Cons.IH [OF d] skip [OF nd]
          by (auto simp: Let_def)
      next
        case True
        then have du: "due env (item, stats)"
          using \<open>\<not> stat_fails env item\<close> by (simp add: due_def)
        have sw: "fst (sweep env (item # items) es c tot)
            = filter (\<lambda>e. \<not> (fst e \<in> set items \<and> due env e)) (remove_child item es)"
          using \<open>\<not> stat_fails env item\<close> Some True
            Cons.IH [OF distinct_remove_child [OF d]]
          by (auto simp: Let_def)
        have "filter (\<lambda>e. \<not> (fst e \<in> set items \<and> due env e)) (remove_child item es)
            = filter (\<lambda>e. \<not> (fst e \<in> set (item # items) \<and> due env e)) es"
          unfolding remove_child_def filter_filter
          by (rule filter_cong) (use uniq du in auto)
        then show ?thesis using sw by simp
      qed
    qed
  qed
qed

lemma cleanOldFiles_children:
  assumes "tmp_root s = Some es" and "distinct (map fst es)"
  shows "tmp_root (fst (cleanOldFiles env s)) = Some (filter (\<lambda>e. \<not> due env e) es)"
    and "pending_mkdir (fst (cleanOldFiles env s)) = pending_mkdir s"
proof -
  obtain es' c tot where sw: "sweep env (map fst es) es 0 0 = (es', c, tot)"
    by (cases "sweep env (map fst es) es 0 0")
  have "es' = filter (\<lambda>e. \<not> (fst e \<in> set (map fst es) \<and> due env e)) es"
    using sweep_children [OF assms(2), of env "map fst es" 0 0] sw by simp
  also have "\<dots> = filter (\<lambda>e. \<not> due env e) es"
    by (rule filter_cong) auto
  finally have "es' = filter (\<lambda>e. \<not> due env e) es" .
  then show "tmp_root (fst (cleanOldFiles env s)) = Some (filter (\<lambda>e. \<not> due env e) es)"
    and "pending_mkdir (fst (cleanOldFiles env s)) = pending_mkdir s"
    using assms(1) sw by (simp_all add: cleanOldFiles_def)
qed

lemma cleanOldFiles_absent:
  "tmp_root s = None \<Longrightarrow> cleanOldFiles env s = (s, None)"
  by (simp add: cleanOldFiles_def)


lemma cleanupFiles_absent: "tmp_root s = None \<Longrightarrow> cleanupFiles env s = s"
  by (simp add: cleanupFiles_def checkDiskSpace_cases cleanAllFiles_def cleanOldFiles_absent)

text \<open>
  C8, as stated, fails in two situations, both under a reported utilization of 95 percent.
  When the temporary directory does not exist, \<open>cleanAllFiles\<close> does nothing: the
  directory is not there after the cycle either, also once pending callbacks have run.
  When removing the directory fails (here at the young entry, which cannot be removed,
  after the old entry before it has been deleted), the exception is caught, and
  \<open>cleanOldFiles\<close>, which \<open>cleanupFiles\<close> calls in every cycle, finds the directory and
  sweeps it by age, removing nothing: the young entry is still there after the cycle, so
  the tree was not purged, and the sweep ran to its closing counters, so it was not
  skipped.
\<close>

theorem cleanupFiles_pressure_counterexample:
  "disk_pressure (demo_env df_full)
   \<and> tmp_root (run_pending (cleanupFiles (demo_env df_full)
        (demo_store\<lparr>tmp_root := None\<rparr>))) = None
   \<and> tmp_root (run_pending (cleanupFiles
        ((demo_env df_full)\<lparr>rm_root_fails := True, removed_before_failure := 1,
           rm_fails := (\<lambda>n. n = fst young_entry)\<rparr>)
        demo_store)) = Some [young_entry]
   \<and> snd (cleanOldFiles
        ((demo_env df_full)\<lparr>rm_root_fails := True, removed_before_failure := 1,
           rm_fails := (\<lambda>n. n = fst young_entry)\<rparr>)
        (checkDiskSpace
           ((demo_env df_full)\<lparr>rm_root_fails := True, removed_before_failure := 1,
              rm_fails := (\<lambda>n. n = fst young_entry)\<rparr>)
           demo_store)) = Some (0, 0)"
  by code_simp

text \<open>
  C8, amended. In a cleanup cycle in which the temporary directory exists and removing it
  does not fail, if some line of the \<open>df\<close> output reports a utilization above the
  ceiling, the whole directory is removed; \<open>cleanOldFiles\<close> is still called but returns
  at once, having looked at no entry, because the directory is absent; when
  \<open>cleanupFiles\<close> returns the directory is absent with its re-creation pending, and once
  the pending callback has run it exists and is empty.
\<close>

theorem cleanupFiles_disk_pressure:
  assumes "disk_pressure env" and "tmp_root s = Some es" and "\<not> rm_root_fails env"
  shows "tmp_root (checkDiskSpace env s) = None
       \<and> cleanOldFiles env (checkDiskSpace env s) = (checkDiskSpace env s, None)
       \<and> tmp_root (cleanupFiles env s) = None
       \<and> pending_mkdir (cleanupFiles env s)
       \<and> run_pending (cleanupFiles env s) = \<lparr>tmp_root = Some [], pending_mkdir = False\<rparr>"
proof -
  have c: "checkDiskSpace env s = s\<lparr>tmp_root := None, pending_mkdir := True\<rparr>"
    using assms by (simp add: checkDiskSpace_cases cleanAllFiles_def)
  then have o: "cleanOldFiles env (checkDiskSpace env s) = (checkDiskSpace env s, None)"
    by (simp add: cleanOldFiles_absent)
  then have u: "cleanupFiles env s = s\<lparr>tmp_root := None, pending_mkdir := True\<rparr>"
    using c by (simp add: cleanupFiles_def)
  show ?thesis
    using c o u by (simp add: run_pending_def)
qed

theorem cleanupFiles_disk_pressure_witness:
  "disk_pressure (demo_env df_full)
   \<and> tmp_root demo_store = Some [old_entry, young_entry]
   \<and> tmp_root (cleanupFiles (demo_env df_full) demo_store) = None
   \<and> run_pending (cleanupFiles (demo_env df_full) demo_store)
       = \<lparr>tmp_root = Some [], pending_mkdir = False\<rparr>"
proof -
  have p: "disk_pressure (demo_env df_full)" by code_simp
  have r: "tmp_root demo_store = Some [old_entry, young_entry]"
    by (simp add: demo_store_def)
  have f: "\<not> rm_root_fails (demo_env df_full)" by (simp add: demo_env_def)
  show ?thesis
    using cleanupFiles_disk_pressure [OF p r f] p r by simp
qed

text \<open>
  C9. In a cleanup cycle without disk pressure (the \<open>df\<close> command failed or no line of
  its output reports a utilization above the ceiling), with the children of the temporary
  directory named apart, the children after the cycle are the children before it without
  those that were due, in the same order and unchanged (and a directory that does not
  exist still does not). An entry is due when its age exceeds the maximum age and neither
  reading its status nor removing it fails: an entry on which one of the two fails stays,
  and the entries after it are swept all the same. When no call fails the children left
  are exactly those whose age does not exceed the maximum age.
\<close>

theorem cleanupFiles_age_sweep:
  assumes "\<not> disk_pressure env" and "distinct (map fst (children_of s))"
  shows "tmp_root (cleanupFiles env s) = map_option (filter (\<lambda>e. \<not> due env e)) (tmp_root s)
       \<and> pending_mkdir (cleanupFiles env s) = pending_mkdir s
       \<and> ((\<forall>n. \<not> stat_fails env n \<and> \<not> rm_fails env n) \<longrightarrow>
            tmp_root (cleanupFiles env s)
              = map_option (filter (\<lambda>e. now env - mtime (snd e) \<le> maxAge)) (tmp_root s))"
proof -
  have c: "checkDiskSpace env s = s"
    using assms(1) by (simp add: checkDiskSpace_cases)
  have 3: "filter (\<lambda>e. \<not> due env e) es = filter (\<lambda>e. now env - mtime (snd e) \<le> maxAge) es"
    if "\<forall>n. \<not> stat_fails env n \<and> \<not> rm_fails env n" for es
    by (rule filter_cong) (use that in \<open>auto simp: due_def\<close>)
  show ?thesis
  proof (cases "tmp_root s")
    case None
    then show ?thesis using c by (simp add: cleanupFiles_def cleanOldFiles_absent)
  next
    case (Some es)
    then have d: "distinct (map fst es)" using assms(2) by (simp add: children_of_def)
    have 1: "tmp_root (cleanupFiles env s) = Some (filter (\<lambda>e. \<not> due env e) es)"
      and 2: "pending_mkdir (cleanupFiles env s) = pending_mkdir s"
      using cleanOldFiles_children [OF Some d, of env] c by (simp_all add: cleanupFiles_def)
    show ?thesis using 1 2 3 Some by simp
  qed
qed

theorem cleanupFiles_age_sweep_witness:
  "tmp_root (cleanupFiles ((demo_env df_roomy)\<lparr>rm_fails := (\<lambda>n. n = fst locked_entry)\<rparr>)
       (demo_store\<lparr>tmp_root := Some [locked_entry, old_entry, young_entry]\<rparr>))
     = Some [locked_entry, young_entry]
   \<and> tmp_root (cleanupFiles (demo_env df_roomy) demo_store) = Some [young_entry]"
proof -
  let ?env = "(demo_env df_roomy)\<lparr>rm_fails := (\<lambda>n. n = fst locked_entry)\<rparr>"
  let ?s = "demo_store\<lparr>tmp_root := Some [locked_entry, old_entry, young_entry]\<rparr>"
  have p: "\<not> disk_pressure ?env" by code_simp
  have q: "\<not> disk_pressure (demo_env df_roomy)" by code_simp
  have d: "distinct (map fst (children_of ?s))" by code_simp
  have d': "distinct (map fst (children_of demo_store))" by code_simp
  have r: "tmp_root ?s = Some [locked_entry, old_entry, young_entry]" by simp
  have r': "tmp_root demo_store = Some [old_entry, young_entry]" by (simp add: demo_store_def)
  have f: "filter (\<lambda>e. \<not> due ?env e) [locked_entry, old_entry, young_entry]
      = [locked_entry, young_entry]" by code_simp
  have f': "filter (\<lambda>e. \<not> due (demo_env df_roomy) e) [old_entry, young_entry] = [young_entry]"
    by code_simp
  show ?thesis
    using cleanupFiles_age_sweep [OF p d] cleanupFiles_age_sweep [OF q d']
    unfolding r r' option.map f f' by simp
qed

end
